theory Spec2Isabelle
  imports
    Complex_Main
    "HOL-Library.AList"
    "HOL-Library.Char_ord"
    "HOL-Library.List_Lexorder"
    "HOL-Library.Product_Lexorder"
begin

section \<open>The game server \<^verbatim>\<open>server.py\<close> over a model of its Redis store\<close>

text \<open>
  \<^verbatim>\<open>server.py\<close> is a Flask application whose handlers read and write one Redis
  database. Every handler is modelled as a function from the store before the request
  to the response and the store after it. What a handler takes from its surroundings
  (the clocks, \<^verbatim>\<open>random.random()\<close>, the server's way of printing numbers) is an
  argument of the function.

  Conventions of the model:
  \<^item> Python integers are \<^typ>\<open>int\<close>. The numbers inside the two Lua scripts are
    doubles. The script of \<^verbatim>\<open>shop_buy\<close>, which multiplies and negates them, is
    modelled with Lua's arithmetic and with the range checks of \<^verbatim>\<open>HINCRBY\<close> and
    \<^verbatim>\<open>DECRBY\<close>; the script of \<^verbatim>\<open>click\<close> reads the replies of \<^verbatim>\<open>HINCRBY\<close> and
    \<^verbatim>\<open>INCR\<close> as doubles, and so writes and returns them rounded. Elsewhere a hash
    field, a counter and a sorted-set score are the integer that was sent, and the
    counters outside the script of \<^verbatim>\<open>shop_buy\<close> are taken to stay within 64 bits.
  \<^item> There are two clocks. The application reads its own clock once per click
    (\<^verbatim>\<open>now_ms\<close>); the keys with a time-to-live expire on the server's clock. The
    commands of one request reach the server at one instant of the server's clock. A
    key written at the server's instant \<open>t\<close> with time-to-live \<open>d\<close> is still there at
    \<open>t + d\<close> and gone after it.
  \<^item> Requests are handled one after the other.
  \<^item> The history streams (\<^verbatim>\<open>XADD\<close>) and the socket broadcasts are only written, never
    read back by a handler; they are not part of the store. The texts of the messages
    in the responses are left out.
\<close>

subsection \<open>Python's \<^verbatim>\<open>str\<close> on integers\<close>

definition digit_char :: "nat \<Rightarrow> char" where
  "digit_char d = ''0123456789'' ! d"

fun str_nat :: "nat \<Rightarrow> string" where
  "str_nat n = (if n < 10 then [digit_char n] else str_nat (n div 10) @ [digit_char (n mod 10)])"

declare str_nat.simps [simp del]

definition str :: "int \<Rightarrow> string" where
  "str i = (if i < 0 then CHR ''-'' # str_nat (nat (- i)) else str_nat (nat i))"

subsection \<open>Redis sorted sets\<close>

text \<open>
  A sorted set holds each member once, with a score. It is kept here as the list of its
  (member, score) pairs in the order the members arrived. Redis orders a sorted set by
  score and, among equal scores, by the members' bytes (\<^verbatim>\<open>memcmp\<close>), which is the
  lexicographic order of \<^typ>\<open>string\<close>; range queries sort by that key.
\<close>

type_synonym 's zset = "(string \<times> 's) list"

definition zkey :: "string \<times> 's \<Rightarrow> 's \<times> string" where
  "zkey e = (snd e, fst e)"

definition zadd :: "'s zset \<Rightarrow> string \<Rightarrow> 's \<Rightarrow> 's zset" where
  "zadd z m sc = filter (\<lambda>e. fst e \<noteq> m) z @ [(m, sc)]"

definition zrem :: "'s zset \<Rightarrow> string \<Rightarrow> 's zset" where
  "zrem z m = filter (\<lambda>e. fst e \<noteq> m) z"

definition zscore :: "'s zset \<Rightarrow> string \<Rightarrow> 's option" where
  "zscore z m = map_of z m"

definition zcard :: "'s zset \<Rightarrow> nat" where
  "zcard z = length z"

definition zremrangebyscore :: "('s::linorder) zset \<Rightarrow> 's \<Rightarrow> 's \<Rightarrow> 's zset" where
  "zremrangebyscore z lo hi = filter (\<lambda>e. \<not> (lo \<le> snd e \<and> snd e \<le> hi)) z"

text \<open>
  Redis's treatment of a rank range \<open>start .. stop\<close> (both inclusive): a negative index
  counts from the end, a start below zero is raised to zero, a stop beyond the end is
  lowered to the last element, and a range that starts after its stop or after the end
  is empty.
\<close>

definition range_by_rank :: "'a list \<Rightarrow> int \<Rightarrow> int \<Rightarrow> 'a list" where
  "range_by_rank xs start stop =
     (let llen = int (length xs);
          start1 = (if start < 0 then llen + start else start);
          stop1 = (if stop < 0 then llen + stop else stop);
          start2 = (if start1 < 0 then 0 else start1)
      in if start2 > stop1 \<or> start2 \<ge> llen then []
         else let stop2 = (if stop1 \<ge> llen then llen - 1 else stop1)
              in take (nat (stop2 - start2 + 1)) (drop (nat start2) xs))"

definition zrange :: "('s::linorder) zset \<Rightarrow> int \<Rightarrow> int \<Rightarrow> 's zset" where
  "zrange z start stop = range_by_rank (sort_key zkey z) start stop"

definition zrevrange :: "('s::linorder) zset \<Rightarrow> int \<Rightarrow> int \<Rightarrow> 's zset" where
  "zrevrange z start stop = range_by_rank (rev (sort_key zkey z)) start stop"

subsection \<open>The store\<close>

text \<open>
  A player hash \<^verbatim>\<open>player:<id>\<close>. \<^verbatim>\<open>player_login\<close> writes \<^verbatim>\<open>username\<close>, \<^verbatim>\<open>gold\<close>,
  \<^verbatim>\<open>level\<close>, \<^verbatim>\<open>exp\<close>, \<^verbatim>\<open>created_at\<close> and \<^verbatim>\<open>last_login\<close>; the handlers below read
  only the first two. \<^verbatim>\<open>HINCRBY\<close> on a hash that does not exist creates it with the
  single field \<^verbatim>\<open>gold\<close>, so a hash may lack a username.
\<close>

record player =
  username :: "string option"
  gold :: int

text \<open>A catalogue entry \<^verbatim>\<open>item:<id>\<close>, seeded by \<^verbatim>\<open>init_game_data\<close>.\<close>

record item =
  name :: string
  price :: int

text \<open>
  An element of the list \<^verbatim>\<open>inventory:<id>\<close>. \<^verbatim>\<open>unique_id\<close> is the float
  \<^verbatim>\<open>time.time() * 1000 + random.random()\<close>, \<^verbatim>\<open>acquired_at\<close> the clock's ISO text.
\<close>

record inventory_item =
  inv_item_id :: string
  inv_name :: string
  unique_id :: real
  acquired_at :: string

text \<open>An auction hash \<^verbatim>\<open>auction:<ms>\<close>; the empty string stands for "no bidder yet".\<close>

record auction =
  seller :: string
  seller_name :: string
  item_id :: string
  item_name :: string
  current_price :: int
  highest_bidder :: string
  highest_bidder_name :: string
  created_at :: string

record store =
  players :: "(string \<times> player) list"
  clicks :: "string \<rightharpoonup> int"
  combo :: "string \<rightharpoonup> int \<times> int"
  cooldown :: "string \<rightharpoonup> int"
  rate :: "string \<Rightarrow> int zset"
  lb_gold :: "int zset"
  lb_clicks :: "int zset"
  items :: "string \<rightharpoonup> item"
  stock :: "string \<rightharpoonup> int"
  inventory :: "string \<Rightarrow> inventory_item list"
  auctions :: "string \<rightharpoonup> auction"
  active :: "real zset"
  cfg_cooldown_ms :: "int option"
  cfg_window_ms :: "int option"
  cfg_max_hits :: "int option"

text \<open>
  \<^item> \<open>players\<close>: the hashes \<^verbatim>\<open>player:*\<close>, as the list \<^verbatim>\<open>scan_iter\<close> walks through;
  \<^item> \<open>clicks\<close>: the counters \<^verbatim>\<open>clicks:<id>\<close>;
  \<^item> \<open>combo\<close>: \<^verbatim>\<open>combo:<id>\<close>, its value and the instant it expires;
  \<^item> \<open>cooldown\<close>: \<^verbatim>\<open>cooldown:<id>\<close>, the instant the marker expires;
  \<^item> \<open>rate\<close>: the sorted sets \<^verbatim>\<open>rate:clicks:<id>\<close> (an empty set is an absent key);
  \<^item> \<open>lb_gold\<close>, \<open>lb_clicks\<close>: \<^verbatim>\<open>leaderboard:gold\<close> and \<^verbatim>\<open>leaderboard:clicks\<close>;
  \<^item> \<open>items\<close>, \<open>stock\<close>: \<^verbatim>\<open>item:<id>\<close> and \<^verbatim>\<open>stock:<id>\<close>;
  \<^item> \<open>inventory\<close>: the lists \<^verbatim>\<open>inventory:<id>\<close> (an empty list is an absent key);
  \<^item> \<open>auctions\<close>: the auction hashes, under their full key \<^verbatim>\<open>auction:<ms>\<close>;
  \<^item> \<open>active\<close>: the sorted set \<^verbatim>\<open>auctions:active\<close>;
  \<^item> \<open>cfg_*\<close>: the keys \<^verbatim>\<open>config:click_cooldown_ms\<close>, \<^verbatim>\<open>config:click_window_ms\<close> and
    \<^verbatim>\<open>config:click_max_hits\<close>.
\<close>

definition hget_gold :: "store \<Rightarrow> string \<Rightarrow> int option" where
  "hget_gold s pid = map_option gold (map_of (players s) pid)"

definition hget_username :: "store \<Rightarrow> string \<Rightarrow> string option" where
  "hget_username s pid = (case map_of (players s) pid of None \<Rightarrow> None | Some p \<Rightarrow> username p)"

text \<open>\<^verbatim>\<open>HINCRBY player:<id> gold delta\<close>: a missing hash counts as 0 and is created.\<close>

definition hincrby_gold :: "store \<Rightarrow> string \<Rightarrow> int \<Rightarrow> int \<times> store" where
  "hincrby_gold s pid delta =
     (let p = (case map_of (players s) pid of
                 None \<Rightarrow> \<lparr>username = None, gold = 0\<rparr>
               | Some q \<Rightarrow> q);
          g = gold p + delta
      in (g, s\<lparr>players := AList.update pid (p\<lparr>gold := g\<rparr>) (players s)\<rparr>))"

text \<open>The balance \<^verbatim>\<open>HINCRBY\<close> starts from: the \<^verbatim>\<open>gold\<close> field, 0 for a missing hash.\<close>

definition balance :: "store \<Rightarrow> string \<Rightarrow> int" where
  "balance s pid = (case map_of (players s) pid of None \<Rightarrow> 0 | Some p \<Rightarrow> gold p)"

subsection \<open>Lua numbers\<close>

text \<open>
  The script of \<^verbatim>\<open>shop_buy\<close> runs in the server's Lua, whose numbers are doubles.
  \<^verbatim>\<open>tonumber\<close> is applied to decimal texts of integers only, so every number the
  script meets is an integer that a double can hold, a zero of either sign, an infinity
  or not-a-number. \<open>Fin v\<close> is the double of value \<open>v\<close>, \<open>Fin 0\<close> the positive zero.
\<close>

datatype lua_number = Fin int | NegZero | PosInf | NegInf | NaN

fun bit_length :: "nat \<Rightarrow> nat" where
  "bit_length n = (if n = 0 then 0 else Suc (bit_length (n div 2)))"

declare bit_length.simps [simp del]

text \<open>
  Rounding of a natural number to 53 significant bits, to the nearest, a tie going to
  the even neighbour: what reading an integer into a double does.
\<close>

definition round53 :: "nat \<Rightarrow> nat" where
  "round53 n =
     (if n < 2 ^ 53 then n
      else
        let k = bit_length n - 53;
            q = n div 2 ^ k;
            r = n mod 2 ^ k
        in (if 2 ^ k < 2 * r \<or> (2 * r = 2 ^ k \<and> odd q) then q + 1 else q) * 2 ^ k)"

text \<open>\<^verbatim>\<open>tonumber\<close> on the decimal text of an integer, and a double's own operations.\<close>

definition to_lua :: "int \<Rightarrow> lua_number" where
  "to_lua x =
     (let m = int (round53 (nat \<bar>x\<bar>))
      in if 2 ^ 1024 \<le> m then (if x < 0 then NegInf else PosInf)
         else Fin (if x < 0 then - m else m))"

fun sign_bit :: "lua_number \<Rightarrow> bool" where
  "sign_bit (Fin v) = (v < 0)"
| "sign_bit NegZero = True"
| "sign_bit PosInf = False"
| "sign_bit NegInf = True"
| "sign_bit NaN = False"

fun is_zero :: "lua_number \<Rightarrow> bool" where
  "is_zero (Fin v) = (v = 0)"
| "is_zero NegZero = True"
| "is_zero PosInf = False"
| "is_zero NegInf = False"
| "is_zero NaN = False"

fun is_inf :: "lua_number \<Rightarrow> bool" where
  "is_inf (Fin v) = False"
| "is_inf NegZero = False"
| "is_inf PosInf = True"
| "is_inf NegInf = True"
| "is_inf NaN = False"

fun lua_val :: "lua_number \<Rightarrow> int" where
  "lua_val (Fin v) = v"
| "lua_val NegZero = 0"
| "lua_val PosInf = 0"
| "lua_val NegInf = 0"
| "lua_val NaN = 0"

definition lua_mul :: "lua_number \<Rightarrow> lua_number \<Rightarrow> lua_number" where
  "lua_mul a b =
     (if a = NaN \<or> b = NaN \<or> (is_inf a \<and> is_zero b) \<or> (is_zero a \<and> is_inf b) then NaN
      else if is_inf a \<or> is_inf b then (if sign_bit a = sign_bit b then PosInf else NegInf)
      else if is_zero a \<or> is_zero b then (if sign_bit a = sign_bit b then Fin 0 else NegZero)
      else to_lua (lua_val a * lua_val b))"

fun lua_neg :: "lua_number \<Rightarrow> lua_number" where
  "lua_neg (Fin v) = (if v = 0 then NegZero else Fin (- v))"
| "lua_neg NegZero = Fin 0"
| "lua_neg PosInf = NegInf"
| "lua_neg NegInf = PosInf"
| "lua_neg NaN = NaN"

definition lua_less :: "lua_number \<Rightarrow> lua_number \<Rightarrow> bool" where
  "lua_less a b =
     (if a = NaN \<or> b = NaN then False
      else if a = PosInf \<or> b = NegInf then False
      else if a = NegInf \<or> b = PosInf then True
      else lua_val a < lua_val b)"

text \<open>
  A number given to \<^verbatim>\<open>redis.call\<close> becomes the text of an argument, which
  \<^verbatim>\<open>HINCRBY\<close> and \<^verbatim>\<open>DECRBY\<close> read as a signed 64-bit integer or refuse. How the text
  is printed depends on the server: older ones print with \<^verbatim>\<open>%.17g\<close>, later ones print
  an integer as a \<^verbatim>\<open>long long\<close> where that is safe. Both print an integer below
  \<open>10 ^ 17\<close> in absolute value as its digits. They differ on the negative zero, printed
  \<^verbatim>\<open>-0\<close> (refused) or \<^verbatim>\<open>0\<close>, and on the larger integers, printed with an exponent
  (refused) or as digits. An infinity and not-a-number are never an integer.
\<close>

record redis_server =
  reads_neg_zero :: bool
  reads_wide :: "int \<Rightarrow> int option"

definition int_arg :: "redis_server \<Rightarrow> lua_number \<Rightarrow> int option" where
  "int_arg srv n =
     (case n of
        Fin v \<Rightarrow> if \<bar>v\<bar> < 10 ^ 17 then Some v else reads_wide srv v
      | NegZero \<Rightarrow> if reads_neg_zero srv then Some 0 else None
      | PosInf \<Rightarrow> None
      | NegInf \<Rightarrow> None
      | NaN \<Rightarrow> None)"

definition in_int64 :: "int \<Rightarrow> bool" where
  "in_int64 v = (- (2 ^ 63) \<le> v \<and> v < 2 ^ 63)"

subsection \<open>\<^verbatim>\<open>shop_buy\<close>\<close>

datatype reject_reason = OutOfStock | InsufficientFunds

text \<open>
  What the script leaves: an error (with the store as it is when the error is raised,
  a script is not rolled back), a refusal, or the new gold it returns and the store.
\<close>

datatype script_result =
    Script_error store
  | Script_rejected reject_reason
  | Script_done int store

text \<open>
  The Lua script of \<^verbatim>\<open>shop_buy\<close>. Comparing or multiplying \<^verbatim>\<open>nil\<close> (a missing
  \<^verbatim>\<open>gold\<close> or \<^verbatim>\<open>price\<close>) raises a Lua error before anything is written.
  \<^verbatim>\<open>HINCRBY\<close> refuses an increment it cannot read or that takes the field out of
  64 bits, \<^verbatim>\<open>DECRBY\<close> likewise, after \<^verbatim>\<open>HINCRBY\<close> has written. The new gold comes
  back into Lua as a number and goes to \<^verbatim>\<open>ZADD\<close> and into the reply as that number.
  The reply's third element, the cost, only goes into the message.
\<close>

definition buy_script ::
  "redis_server \<Rightarrow> store \<Rightarrow> string \<Rightarrow> string \<Rightarrow> int \<Rightarrow> script_result" where
  "buy_script srv s player_id iid quantity_arg =
     (let quantity = to_lua quantity_arg in
      case stock s iid of
        None \<Rightarrow> Script_rejected OutOfStock
      | Some st \<Rightarrow>
          if lua_less (to_lua st) quantity then Script_rejected OutOfStock
          else
            (case items s iid of
               None \<Rightarrow> Script_error s
             | Some it \<Rightarrow>
                (case hget_gold s player_id of
                   None \<Rightarrow> Script_error s
                 | Some g \<Rightarrow>
                     let player_gold = to_lua g;
                         total_cost = lua_mul (to_lua (price it)) quantity
                     in
                       if lua_less player_gold total_cost then Script_rejected InsufficientFunds
                       else
                         (case int_arg srv (lua_neg total_cost) of
                            None \<Rightarrow> Script_error s
                          | Some incr \<Rightarrow>
                              if in_int64 incr \<and> in_int64 (g + incr) then
                                let (new_gold, s1) = hincrby_gold s player_id incr in
                                (case int_arg srv quantity of
                                   None \<Rightarrow> Script_error s1
                                 | Some decr \<Rightarrow>
                                     if in_int64 decr \<and> in_int64 (- decr) \<and> in_int64 (st - decr) then
                                       let s2 = s1\<lparr>stock := (stock s1)(iid \<mapsto> st - decr)\<rparr>;
                                           seen_gold = lua_val (to_lua new_gold);
                                           s3 = s2\<lparr>lb_gold := zadd (lb_gold s2) player_id seen_gold\<rparr>
                                       in Script_done seen_gold s3
                                     else Script_error s1)
                              else Script_error s))))"

datatype buy_response =
    Buy_item_not_found
  | Buy_rejected reject_reason
  | Buy_script_failed
  | Buy_ok int

text \<open>\<open>Buy_ok\<close> carries \<^verbatim>\<open>gold\<close>; \<open>Buy_script_failed\<close> is the uncaught script error.\<close>

fun buy_status :: "buy_response \<Rightarrow> nat" where
  "buy_status Buy_item_not_found = 404"
| "buy_status (Buy_rejected _) = 400"
| "buy_status Buy_script_failed = 500"
| "buy_status (Buy_ok _) = 200"

text \<open>One pass of the loop \<^verbatim>\<open>for _ in range(quantity)\<close>: build the item, \<^verbatim>\<open>RPUSH\<close> it.\<close>

definition rpush_item ::
  "string \<Rightarrow> string \<Rightarrow> string \<Rightarrow> (nat \<Rightarrow> real) \<Rightarrow> (nat \<Rightarrow> string) \<Rightarrow> store \<Rightarrow> nat \<Rightarrow> store" where
  "rpush_item player_id iid nm uid_at time_at s i =
     s\<lparr>inventory := (inventory s)(player_id := inventory s player_id @
          [\<lparr>inv_item_id = iid, inv_name = nm, unique_id = uid_at i, acquired_at = time_at i\<rparr>])\<rparr>"

text \<open>
  \<open>uid_at i\<close> and \<open>time_at i\<close> are what \<^verbatim>\<open>time.time() * 1000 + random.random()\<close> and
  \<^verbatim>\<open>datetime.now().isoformat()\<close> give in pass \<open>i\<close> of the loop. \<^verbatim>\<open>range(quantity)\<close> is
  empty for a quantity below 1.
\<close>

definition shop_buy ::
  "redis_server \<Rightarrow> store \<Rightarrow> (nat \<Rightarrow> real) \<Rightarrow> (nat \<Rightarrow> string) \<Rightarrow> string \<Rightarrow> string \<Rightarrow> int
     \<Rightarrow> buy_response \<times> store" where
  "shop_buy srv s uid_at time_at player_id iid quantity =
     (case items s iid of
        None \<Rightarrow> (Buy_item_not_found, s)
      | Some it \<Rightarrow>
         (case buy_script srv s player_id iid quantity of
            Script_error s1 \<Rightarrow> (Buy_script_failed, s1)
          | Script_rejected why \<Rightarrow> (Buy_rejected why, s)
          | Script_done new_gold s1 \<Rightarrow>
              (Buy_ok new_gold,
               foldl (rpush_item player_id iid (name it) uid_at time_at) s1 [0..<nat quantity])))"

subsection \<open>\<^verbatim>\<open>click\<close>\<close>

definition config_cooldown_ms :: "store \<Rightarrow> int" where
  "config_cooldown_ms s = (case cfg_cooldown_ms s of None \<Rightarrow> 500 | Some v \<Rightarrow> v)"

definition config_window_ms :: "store \<Rightarrow> int" where
  "config_window_ms s = (case cfg_window_ms s of None \<Rightarrow> 1000 | Some v \<Rightarrow> v)"

definition config_max_hits :: "store \<Rightarrow> int" where
  "config_max_hits s = (case cfg_max_hits s of None \<Rightarrow> 3 | Some v \<Rightarrow> v)"

text \<open>
  \<^verbatim>\<open>r.exists(cooldown_key)\<close> and \<^verbatim>\<open>r.get(combo_key)\<close> at the server's instant
  \<open>srv_ms\<close>: the server treats a key as expired once its clock is past the expiry.
\<close>

definition live_cooldown :: "store \<Rightarrow> int \<Rightarrow> string \<Rightarrow> int option" where
  "live_cooldown s srv_ms pid =
     (case cooldown s pid of
        None \<Rightarrow> None
      | Some expiry \<Rightarrow> if srv_ms \<le> expiry then Some expiry else None)"

definition live_combo :: "store \<Rightarrow> int \<Rightarrow> string \<Rightarrow> int option" where
  "live_combo s srv_ms pid =
     (case combo s pid of
        None \<Rightarrow> None
      | Some (v, expiry) \<Rightarrow> if srv_ms \<le> expiry then Some v else None)"

text \<open>
  Part C of \<^verbatim>\<open>click\<close>, the reward: \<open>rnd\<close> is the value of \<^verbatim>\<open>random.random()\<close>.
\<close>

definition click_reward :: "int \<Rightarrow> real \<Rightarrow> int \<times> bool" where
  "click_reward cmb rnd =
     (let base_reward = 10;
          combo_bonus = min (cmb * 2) 50;
          is_critical = (rnd < 1 / 10);
          total_reward = base_reward + combo_bonus
      in (if is_critical then total_reward * 2 else total_reward, is_critical))"

text \<open>
  The Lua script of \<^verbatim>\<open>click\<close>: \<^verbatim>\<open>HINCRBY\<close>, \<^verbatim>\<open>INCR\<close> and the two \<^verbatim>\<open>ZADD\<close>.
  The script holds the two replies as doubles; these are the scores it writes and the
  numbers it returns. The reward is passed on as it is: it lies between 10 and 120
  whenever the stored combo is not negative.
\<close>

definition click_script :: "store \<Rightarrow> string \<Rightarrow> int \<Rightarrow> int \<times> int \<times> store" where
  "click_script s pid reward =
     (let (gold_reply, s1) = hincrby_gold s pid reward;
          new_gold = lua_val (to_lua gold_reply);
          clicks_reply = (case clicks s1 pid of None \<Rightarrow> 0 | Some c \<Rightarrow> c) + 1;
          new_clicks = lua_val (to_lua clicks_reply);
          s2 = s1\<lparr>clicks := (clicks s1)(pid \<mapsto> clicks_reply)\<rparr>;
          s3 = s2\<lparr>lb_gold := zadd (lb_gold s2) pid new_gold\<rparr>;
          s4 = s3\<lparr>lb_clicks := zadd (lb_clicks s3) pid new_clicks\<rparr>
      in (new_gold, new_clicks, s4))"

record click_result =
  cr_reward :: int
  cr_gold :: int
  cr_combo :: int
  cr_critical :: bool
  cr_total_clicks :: int
  cr_cooldown_ms :: int
  cr_rate_limit_window_ms :: int
  cr_rate_limit_max_hits :: int

datatype click_response =
    Click_not_found
  | Click_rate_limited int int int
  | Click_cooling_down int
  | Click_ok click_result

text \<open>
  \<open>Click_rate_limited\<close> carries \<^verbatim>\<open>retry_after_ms\<close>, \<^verbatim>\<open>limit_window_ms\<close> and
  \<^verbatim>\<open>limit_max_hits\<close>; \<open>Click_cooling_down\<close> carries \<^verbatim>\<open>cooldown_ms\<close>.
\<close>

fun click_status :: "click_response \<Rightarrow> nat" where
  "click_status Click_not_found = 404"
| "click_status (Click_rate_limited _ _ _) = 429"
| "click_status (Click_cooling_down _) = 429"
| "click_status (Click_ok _) = 200"

text \<open>
  \<open>now_ms\<close> is the application's clock reading \<^verbatim>\<open>int(time.time() * 1000)\<close>, \<open>srv_ms\<close>
  the server's clock when the request's commands arrive, \<open>rnd\<close> the random draw.
  The rate record is pruned and filled with \<open>now_ms\<close>; \<^verbatim>\<open>PTTL\<close>, \<^verbatim>\<open>PSETEX\<close> and
  \<^verbatim>\<open>SETEX\<close> count from \<open>srv_ms\<close>.
\<close>

definition click :: "store \<Rightarrow> int \<Rightarrow> int \<Rightarrow> real \<Rightarrow> string \<Rightarrow> click_response \<times> store" where
  "click s now_ms srv_ms rnd player_id =
     (if map_of (players s) player_id = None then (Click_not_found, s)
      else
        let cooldown_ms = config_cooldown_ms s;
            window_ms = config_window_ms s;
            max_hits = config_max_hits s;
            s1 = s\<lparr>rate := (rate s)(player_id :=
                    zremrangebyscore (rate s player_id) 0 (now_ms - window_ms))\<rparr>;
            current_hits = int (zcard (rate s1 player_id))
        in
          if current_hits \<ge> max_hits then
            let oldest = zrange (rate s1 player_id) 0 0;
                retry_after_ms =
                  (case oldest of
                     [] \<Rightarrow> 0
                   | (_, oldest_ts) # _ \<Rightarrow> max 0 (oldest_ts + window_ms - now_ms))
            in (Click_rate_limited retry_after_ms window_ms max_hits, s1)
          else
            let s2 = s1\<lparr>rate := (rate s1)(player_id :=
                        zadd (rate s1 player_id) (str now_ms) now_ms)\<rparr>
            in
              (case live_cooldown s2 srv_ms player_id of
                 Some expiry \<Rightarrow>
                   let ttl_ms = expiry - srv_ms
                   in (Click_cooling_down (if ttl_ms > 0 then ttl_ms else cooldown_ms), s2)
               | None \<Rightarrow>
                   let s3 = (if cooldown_ms > 0
                             then s2\<lparr>cooldown := (cooldown s2)(player_id \<mapsto> srv_ms + cooldown_ms)\<rparr>
                             else s2);
                       cmb = (case live_combo s3 srv_ms player_id of None \<Rightarrow> 0 | Some v \<Rightarrow> v);
                       (total_reward, is_critical) = click_reward cmb rnd;
                       (new_gold, new_clicks, s4) = click_script s3 player_id total_reward;
                       s5 = s4\<lparr>combo := (combo s4)(player_id \<mapsto> (cmb + 1, srv_ms + 10000))\<rparr>
                   in (Click_ok \<lparr>cr_reward = total_reward, cr_gold = new_gold,
                                  cr_combo = cmb + 1, cr_critical = is_critical,
                                  cr_total_clicks = new_clicks, cr_cooldown_ms = cooldown_ms,
                                  cr_rate_limit_window_ms = window_ms,
                                  cr_rate_limit_max_hits = max_hits\<rparr>, s5)))"

subsection \<open>\<^verbatim>\<open>auction_bid\<close>\<close>

datatype bid_response =
    Bid_not_found
  | Bid_too_low
  | Bid_insufficient_funds
  | Bid_type_error
  | Bid_data_error
  | Bid_ok int

text \<open>
  \<open>Bid_type_error\<close> is \<^verbatim>\<open>int(None)\<close> for a bidder without a hash; \<open>Bid_data_error\<close> is
  \<^verbatim>\<open>r.hset\<close> refusing the value \<^verbatim>\<open>None\<close> for a bidder whose hash has no username.
  Both are uncaught exceptions (status 500); the second one is raised after the gold
  has moved.
\<close>

fun bid_status :: "bid_response \<Rightarrow> nat" where
  "bid_status Bid_not_found = 404"
| "bid_status Bid_too_low = 400"
| "bid_status Bid_insufficient_funds = 400"
| "bid_status Bid_type_error = 500"
| "bid_status Bid_data_error = 500"
| "bid_status (Bid_ok _) = 200"

definition auction_bid :: "store \<Rightarrow> string \<Rightarrow> string \<Rightarrow> int \<Rightarrow> bid_response \<times> store" where
  "auction_bid s aid pid bid_amount =
     (case auctions s aid of
        None \<Rightarrow> (Bid_not_found, s)
      | Some auction_data \<Rightarrow>
          let cp = current_price auction_data in
          if bid_amount \<le> cp then (Bid_too_low, s)
          else
            (case hget_gold s pid of
               None \<Rightarrow> (Bid_type_error, s)
             | Some player_gold \<Rightarrow>
                 if player_gold < bid_amount then (Bid_insufficient_funds, s)
                 else
                   let prev_bidder = highest_bidder auction_data;
                       s1 = (if prev_bidder \<noteq> []
                             then (let (new_prev_gold, t) = hincrby_gold s prev_bidder cp
                                   in t\<lparr>lb_gold := zadd (lb_gold t) prev_bidder new_prev_gold\<rparr>)
                             else s);
                       (new_gold, s2) = hincrby_gold s1 pid (- bid_amount);
                       s3 = s2\<lparr>lb_gold := zadd (lb_gold s2) pid new_gold\<rparr>
                   in
                     (case hget_username s3 pid of
                        None \<Rightarrow> (Bid_data_error, s3)
                      | Some uname \<Rightarrow>
                          (Bid_ok new_gold,
                           s3\<lparr>auctions := (auctions s3)(aid \<mapsto>
                                 auction_data\<lparr>current_price := bid_amount,
                                              highest_bidder := pid,
                                              highest_bidder_name := uname\<rparr>)\<rparr>))))"

subsection \<open>\<^verbatim>\<open>auction_buy\<close> and \<^verbatim>\<open>auction_list\<close>\<close>

datatype buyout_response =
    Buyout_missing_player
  | Buyout_not_found
  | Buyout_insufficient_funds
  | Buyout_ok int int

text \<open>\<open>Buyout_ok\<close> carries \<^verbatim>\<open>buyer_gold\<close> and \<^verbatim>\<open>seller_gold\<close>.\<close>

fun buyout_status :: "buyout_response \<Rightarrow> nat" where
  "buyout_status Buyout_missing_player = 400"
| "buyout_status Buyout_not_found = 404"
| "buyout_status Buyout_insufficient_funds = 400"
| "buyout_status (Buyout_ok _ _) = 200"

definition auction_key :: "string \<Rightarrow> string" where
  "auction_key auction_id =
     (if take 8 auction_id = ''auction:'' then auction_id else ''auction:'' @ auction_id)"

text \<open>
  \<open>uid\<close> and \<open>now_iso\<close> are \<^verbatim>\<open>time.time() * 1000 + random.random()\<close> and
  \<^verbatim>\<open>datetime.now().isoformat()\<close>. The \<^verbatim>\<open>ZADD\<close> takes a Python dict: the buyer's
  entry first, the seller's second, one entry (the seller's) when they are the same key.
\<close>

definition auction_buy ::
  "store \<Rightarrow> real \<Rightarrow> string \<Rightarrow> string \<Rightarrow> string \<Rightarrow> buyout_response \<times> store" where
  "auction_buy s uid now_iso auction_id buyer_id =
     (if buyer_id = [] then (Buyout_missing_player, s)
      else
        let akey = auction_key auction_id in
        (case auctions s akey of
           None \<Rightarrow> (Buyout_not_found, s)
         | Some auction_data \<Rightarrow>
             let seller_id = seller auction_data;
                 prc = current_price auction_data;
                 buyer_gold = (case hget_gold s buyer_id of None \<Rightarrow> 0 | Some g \<Rightarrow> g)
             in
               if buyer_gold < prc then (Buyout_insufficient_funds, s)
               else
                 let (new_buyer_gold, s1) = hincrby_gold s buyer_id (- prc);
                     (new_seller_gold, s2) = hincrby_gold s1 seller_id prc;
                     s3 = s2\<lparr>lb_gold := zadd (zadd (lb_gold s2) buyer_id new_buyer_gold)
                                             seller_id new_seller_gold\<rparr>;
                     s4 = s3\<lparr>inventory := (inventory s3)(buyer_id := inventory s3 buyer_id @
                            [\<lparr>inv_item_id = item_id auction_data,
                              inv_name = item_name auction_data,
                              unique_id = uid, acquired_at = now_iso\<rparr>])\<rparr>;
                     s5 = s4\<lparr>auctions := (auctions s4)(akey := None)\<rparr>;
                     s6 = s5\<lparr>active := zrem (active s5) akey\<rparr>
                 in (Buyout_ok new_buyer_gold new_seller_gold, s6)))"



subsection \<open>\<^verbatim>\<open>get_leaderboard\<close>\<close>

record leaderboard_entry =
  lb_rank :: int
  lb_player_id :: string
  lb_username :: "string option"
  lb_score :: int

text \<open>Only \<^verbatim>\<open>leaderboard:gold\<close> and \<^verbatim>\<open>leaderboard:clicks\<close> are ever written.\<close>

definition leaderboard :: "store \<Rightarrow> string \<Rightarrow> int zset" where
  "leaderboard s board_type =
     (if board_type = ''gold'' then lb_gold s
      else if board_type = ''clicks'' then lb_clicks s
      else [])"

definition get_leaderboard :: "store \<Rightarrow> string \<Rightarrow> int \<Rightarrow> leaderboard_entry list" where
  "get_leaderboard s board_type limit =
     (let top = zrevrange (leaderboard s board_type) 0 (limit - 1)
      in map (\<lambda>(rnk, (pid, sc)).
                \<lparr>lb_rank = int rnk, lb_player_id = pid,
                 lb_username = hget_username s pid, lb_score = sc\<rparr>)
             (List.enumerate 1 top))"

subsection \<open>\<^verbatim>\<open>player_login\<close>\<close>

datatype login_response =
    Login_missing_name
  | Login_existing string
  | Login_created string

text \<open>
  The scan for the name walks over the player hashes; a hit only refreshes
  \<^verbatim>\<open>last_login\<close>. Otherwise the new identifier is the clock's millisecond count.
\<close>

definition player_login :: "store \<Rightarrow> int \<Rightarrow> string \<Rightarrow> login_response \<times> store" where
  "player_login s now_ms uname =
     (if uname = [] then (Login_missing_name, s)
      else
        (case find (\<lambda>kp. username (snd kp) = Some uname) (players s) of
           Some kp \<Rightarrow> (Login_existing (fst kp), s)
         | None \<Rightarrow>
             let player_id = str now_ms;
                 s1 = s\<lparr>players := AList.update player_id
                          \<lparr>username = Some uname, gold = 1000\<rparr> (players s)\<rparr>;
                 s2 = s1\<lparr>lb_gold := zadd (lb_gold s1) player_id 1000\<rparr>;
                 s3 = s2\<lparr>lb_clicks := zadd (lb_clicks s2) player_id 0\<rparr>
             in (Login_created player_id, s3)))"

subsection \<open>Auxiliary definitions for the statements\<close>

text \<open>The inventory items the loop of \<^verbatim>\<open>shop_buy\<close> pushes, in order.\<close>

definition new_items ::
  "string \<Rightarrow> string \<Rightarrow> (nat \<Rightarrow> real) \<Rightarrow> (nat \<Rightarrow> string) \<Rightarrow> int \<Rightarrow> inventory_item list" where
  "new_items iid nm uid_at time_at quantity =
     map (\<lambda>i. \<lparr>inv_item_id = iid, inv_name = nm, unique_id = uid_at i, acquired_at = time_at i\<rparr>)
         [0..<nat quantity]"

text \<open>
  An integer that a double holds exactly, with room to spare: below \<open>2 ^ 53\<close> in
  absolute value. A server that prints with \<^verbatim>\<open>%.17g\<close>: it reads neither the negative
  zero nor an integer of 18 digits or more.
\<close>

definition safe_int :: "int \<Rightarrow> bool" where
  "safe_int x = (\<bar>x\<bar> < 2 ^ 53)"

definition printf_server :: redis_server where
  "printf_server = \<lparr>reads_neg_zero = False, reads_wide = (\<lambda>_. None)\<rparr>"

text \<open>A database with no keys, and sample data for concrete runs.\<close>

definition empty_store :: store where
  "empty_store =
     \<lparr>players = [], clicks = Map.empty, combo = Map.empty, cooldown = Map.empty,
      rate = (\<lambda>_. []), lb_gold = [], lb_clicks = [], items = Map.empty,
      stock = Map.empty, inventory = (\<lambda>_. []), auctions = Map.empty, active = [],
      cfg_cooldown_ms = None, cfg_window_ms = None, cfg_max_hits = None\<rparr>"

definition shop_store :: store where
  "shop_store =
     empty_store
       \<lparr>players := [(''1'', \<lparr>username = Some ''ann'', gold = 1000\<rparr>)],
        lb_gold := [(''1'', 1000)], lb_clicks := [(''1'', 0)],
        items := [''sword_bronze'' \<mapsto> \<lparr>name = ''bronze sword'', price = 100\<rparr>],
        stock := [''sword_bronze'' \<mapsto> 5]\<rparr>"

definition uid_sample :: "nat \<Rightarrow> real" where
  "uid_sample i = 1700000000000 + real i"

definition time_sample :: "nat \<Rightarrow> string" where
  "time_sample i = ''2025-01-01T00:00:00''"

text \<open>
  A clock and a random draw that give the same float in every pass of the loop, and
  the shop with ann holding \<open>2 ^ 53 + 101\<close> gold.
\<close>

definition uid_stuck :: "nat \<Rightarrow> real" where
  "uid_stuck i = 3400000000001 / 2"

definition rich_store :: store where
  "rich_store =
     shop_store
       \<lparr>players := [(''1'', \<lparr>username = Some ''ann'', gold = 9007199254741093\<rparr>)],
        lb_gold := [(''1'', 9007199254741093)]\<rparr>"

text \<open>The shop with ann holding \<open>2 ^ 53 - 9\<close> gold.\<close>

definition brim_store :: store where
  "brim_store =
     shop_store
       \<lparr>players := [(''1'', \<lparr>username = Some ''ann'', gold = 9007199254740983\<rparr>)],
        lb_gold := [(''1'', 9007199254740983)]\<rparr>"

text \<open>
  An auction of ann's sword at 50 gold with no bid yet, and the same auction after bob
  has bid 60 (and has been debited 60).
\<close>

definition sample_auction :: auction where
  "sample_auction =
     \<lparr>seller = ''1'', seller_name = ''ann'', item_id = ''sword_bronze'',
      item_name = ''bronze sword'', current_price = 50, highest_bidder = [],
      highest_bidder_name = [], created_at = ''2025-01-01T00:00:00''\<rparr>"

definition auction_store :: store where
  "auction_store =
     empty_store
       \<lparr>players := [(''1'', \<lparr>username = Some ''ann'', gold = 1000\<rparr>),
                    (''2'', \<lparr>username = Some ''bob'', gold = 1000\<rparr>),
                    (''3'', \<lparr>username = Some ''cat'', gold = 1000\<rparr>)],
        lb_gold := [(''1'', 1000), (''2'', 1000), (''3'', 1000)],
        lb_clicks := [(''1'', 0), (''2'', 0), (''3'', 0)],
        items := [''sword_bronze'' \<mapsto> \<lparr>name = ''bronze sword'', price = 100\<rparr>],
        stock := [''sword_bronze'' \<mapsto> 20],
        auctions := [''auction:1700000000000'' \<mapsto> sample_auction],
        active := [(''auction:1700000000000'', 1700000000)]\<rparr>"



text \<open>The same store with the auction standing at 0 gold.\<close>

definition free_store :: store where
  "free_store =
     auction_store\<lparr>auctions := [''auction:1700000000000'' \<mapsto> sample_auction\<lparr>current_price := 0\<rparr>]\<rparr>"

text \<open>
  Stored combo values are written by \<^verbatim>\<open>click\<close> alone, as the previous value plus
  one, starting from 0: none is negative. \<open>prior_combo\<close> is the combo a click reads,
  \<open>pruned\<close> the rate record of a player after \<^verbatim>\<open>ZREMRANGEBYSCORE\<close>.
\<close>

definition combo_nonneg :: "store \<Rightarrow> bool" where
  "combo_nonneg s = (\<forall>pid v e. combo s pid = Some (v, e) \<longrightarrow> 0 \<le> v)"

definition prior_combo :: "store \<Rightarrow> int \<Rightarrow> string \<Rightarrow> int" where
  "prior_combo s srv_ms pid = (case live_combo s srv_ms pid of None \<Rightarrow> 0 | Some v \<Rightarrow> v)"

definition pruned :: "store \<Rightarrow> int \<Rightarrow> string \<Rightarrow> int zset" where
  "pruned s now_ms pid = zremrangebyscore (rate s pid) 0 (now_ms - config_window_ms s)"

text \<open>
  The store after ann's first click, read at 1700000000000 on both clocks: 10 gold
  earned, combo 1, the click recorded in her rate record and the cooldown marker set
  for 500 ms.
\<close>

definition click_store :: store where
  "click_store =
     shop_store
       \<lparr>players := [(''1'', \<lparr>username = Some ''ann'', gold = 1010\<rparr>)],
        clicks := [''1'' \<mapsto> 1],
        combo := [''1'' \<mapsto> (1, 1700000010000)],
        cooldown := [''1'' \<mapsto> 1700000000500],
        rate := (\<lambda>_. [])(''1'' := [(''1700000000000'', 1700000000000)]),
        lb_gold := [(''1'', 1010)],
        lb_clicks := [(''1'', 1)]\<rparr>"

text \<open>Two players who logged in one after the other, one millisecond apart.\<close>

definition two_logins :: store where
  "two_logins =
     snd (player_login (snd (player_login empty_store 1700000000001 ''ann'')) 1700000000002 ''bob'')"

subsection \<open>The requests that move gold\<close>

text \<open>
  The routes \<^verbatim>\<open>/api/player/login\<close>, \<^verbatim>\<open>/api/click/<player_id>\<close>, \<^verbatim>\<open>/api/shop/buy\<close>,
  \<^verbatim>\<open>/api/auction/bid\<close> and \<^verbatim>\<open>/api/auction/buy/<auction_id>\<close> with their
  arguments, and the store each leaves behind.
\<close>

datatype request =
    Login int string
  | Click int int real string
  | Shop_buy "nat \<Rightarrow> real" "nat \<Rightarrow> string" string string int
  | Auction_bid string string int
  | Auction_buy real string string string

fun handle :: "redis_server \<Rightarrow> store \<Rightarrow> request \<Rightarrow> store" where
  "handle srv s (Login now_ms uname) = snd (player_login s now_ms uname)"
| "handle srv s (Click now_ms srv_ms rnd player_id) = snd (click s now_ms srv_ms rnd player_id)"
| "handle srv s (Shop_buy uid_at time_at player_id iid quantity) =
     snd (shop_buy srv s uid_at time_at player_id iid quantity)"
| "handle srv s (Auction_bid aid pid bid_amount) = snd (auction_bid s aid pid bid_amount)"
| "handle srv s (Auction_buy uid now_iso auction_id buyer_id) =
     snd (auction_buy s uid now_iso auction_id buyer_id)"

text \<open>
  \<open>synced\<close>: the gold score of every player hash is its gold, and the clicks score of
  every hash with a username (every player created by \<^verbatim>\<open>player_login\<close>) is its click
  counter, an absent counter counting as 0. \<open>new_id\<close>: the identifier a login would
  create has no click counter yet. \<open>exact_request\<close>: the stock, the quantity, the
  price, the buyer's gold, the cost and the gold left of a purchase, and the click
  counter after a click, are integers a double holds exactly. \<open>exact_gold\<close>: so is
  every balance. \<open>steady\<close>: at every step of a run the identifier is new, the request
  exact, and the balances after it exact.
\<close>

definition click_count :: "store \<Rightarrow> string \<Rightarrow> int" where
  "click_count s pid = (case clicks s pid of None \<Rightarrow> 0 | Some c \<Rightarrow> c)"

definition synced :: "store \<Rightarrow> bool" where
  "synced s =
     (\<forall>pid p. map_of (players s) pid = Some p \<longrightarrow>
        zscore (lb_gold s) pid = Some (gold p)
        \<and> (username p \<noteq> None \<longrightarrow> zscore (lb_clicks s) pid = Some (click_count s pid)))"

fun new_id :: "store \<Rightarrow> request \<Rightarrow> bool" where
  "new_id s (Login now_ms uname) = (clicks s (str now_ms) = None)"
| "new_id s _ = True"

definition exact_numbers :: "store \<Rightarrow> string \<Rightarrow> string \<Rightarrow> int \<Rightarrow> bool" where
  "exact_numbers s player_id iid quantity =
     (case items s iid of
        None \<Rightarrow> True
      | Some it \<Rightarrow>
         (case stock s iid of
            None \<Rightarrow> True
          | Some st \<Rightarrow>
             (case hget_gold s player_id of
                None \<Rightarrow> True
              | Some g \<Rightarrow>
                  safe_int st \<and> safe_int quantity \<and> safe_int (price it) \<and> safe_int g
                  \<and> safe_int (price it * quantity) \<and> safe_int (g - price it * quantity))))"

fun exact_request :: "store \<Rightarrow> request \<Rightarrow> bool" where
  "exact_request s (Shop_buy uid_at time_at player_id iid quantity) =
     exact_numbers s player_id iid quantity"
| "exact_request s (Click now_ms srv_ms rnd player_id) = safe_int (click_count s player_id + 1)"
| "exact_request s _ = True"

definition exact_gold :: "store \<Rightarrow> bool" where
  "exact_gold s = list_all (\<lambda>e. safe_int (gold (snd e))) (players s)"

fun steady :: "redis_server \<Rightarrow> store \<Rightarrow> request list \<Rightarrow> bool" where
  "steady srv s [] = True"
| "steady srv s (r # rs) =
     (new_id s r \<and> exact_request s r \<and> exact_gold (handle srv s r)
      \<and> steady srv (handle srv s r) rs)"

subsection \<open>Sequences of clicks\<close>









text \<open>
  \<^verbatim>\<open>retry_after_ms\<close> as the window gate computes it: from the first element of
  \<^verbatim>\<open>ZRANGE key 0 0\<close> on the pruned record, clamped at 0, and 0 for an empty record.
\<close>

definition retry_after :: "store \<Rightarrow> int \<Rightarrow> string \<Rightarrow> int" where
  "retry_after s now_ms pid =
     (case zrange (pruned s now_ms pid) 0 0 of
        [] \<Rightarrow> 0
      | e # _ \<Rightarrow> max 0 (snd e + config_window_ms s - now_ms))"




section \<open>Properties\<close>

subsection \<open>Sorted sets, balances and the inventory loop\<close>

lemma map_of_filter_fst_neq:
  "map_of (filter (\<lambda>e. fst e \<noteq> m) z) k = (if k = m then None else map_of z k)"
  by (induction z) auto

lemma zscore_zadd: "zscore (zadd z m sc) k = (if k = m then Some sc else zscore z k)"
  by (auto simp: zscore_def zadd_def map_of_filter_fst_neq map_add_def split: option.splits)

lemma map_of_hincrby:
  "map_of (players (snd (hincrby_gold s pid d))) q =
     (if q = pid
      then Some ((case map_of (players s) pid of
                    None \<Rightarrow> \<lparr>username = None, gold = 0\<rparr>
                  | Some p \<Rightarrow> p)\<lparr>gold := balance s pid + d\<rparr>)
      else map_of (players s) q)"
  by (simp add: hincrby_gold_def Let_def update_conv' balance_def split: option.splits)

lemma fst_hincrby: "fst (hincrby_gold s pid d) = balance s pid + d"
  by (simp add: hincrby_gold_def Let_def balance_def split: option.splits)

lemma balance_hincrby:
  "balance (snd (hincrby_gold s pid d)) q = balance s q + (if q = pid then d else 0)"
  by (simp add: balance_def map_of_hincrby split: option.splits)

lemma hget_gold_Some: "map_of (players s) pid = Some p \<Longrightarrow> hget_gold s pid = Some (gold p)"
  by (simp add: hget_gold_def)

lemma hincrby_existing:
  "map_of (players s) pid = Some p \<Longrightarrow>
   hincrby_gold s pid d =
     (gold p + d, s\<lparr>players := AList.update pid (p\<lparr>gold := gold p + d\<rparr>) (players s)\<rparr>)"
  by (simp add: hincrby_gold_def Let_def)

lemma foldl_rpush_item:
  "foldl (rpush_item pid iid nm uid_at time_at) s js =
     s\<lparr>inventory := (inventory s)(pid := inventory s pid @
          map (\<lambda>i. \<lparr>inv_item_id = iid, inv_name = nm, unique_id = uid_at i,
                     acquired_at = time_at i\<rparr>) js)\<rparr>"
proof (induction js arbitrary: s)
  case Nil
  show ?case by simp
next
  case (Cons j js)
  have "foldl (rpush_item pid iid nm uid_at time_at) s (j # js) =
          foldl (rpush_item pid iid nm uid_at time_at) (rpush_item pid iid nm uid_at time_at s j) js"
    by simp
  also have "\<dots> = (rpush_item pid iid nm uid_at time_at s j)\<lparr>inventory :=
      (inventory (rpush_item pid iid nm uid_at time_at s j))(pid :=
         inventory (rpush_item pid iid nm uid_at time_at s j) pid @
         map (\<lambda>i. \<lparr>inv_item_id = iid, inv_name = nm, unique_id = uid_at i,
                    acquired_at = time_at i\<rparr>) js)\<rparr>"
    by (rule Cons.IH)
  also have "\<dots> = s\<lparr>inventory := (inventory s)(pid := inventory s pid @
          map (\<lambda>i. \<lparr>inv_item_id = iid, inv_name = nm, unique_id = uid_at i,
                     acquired_at = time_at i\<rparr>) (j # js))\<rparr>"
    by (simp add: rpush_item_def)
  finally show ?case .
qed

lemma inj_uid_sample: "inj_on uid_sample A"
  by (simp add: inj_on_def uid_sample_def)


subsection \<open>Purchases\<close>

lemma to_lua_safe: "safe_int x \<Longrightarrow> to_lua x = Fin x"
  by (auto simp: safe_int_def to_lua_def round53_def Let_def)

lemma lua_less_Fin [simp]: "lua_less (Fin x) (Fin y) = (x < y)"
  by (simp add: lua_less_def)

lemma lua_mul_Fin:
  "lua_mul (Fin x) (Fin y) =
     (if x = 0 \<or> y = 0 then (if (x < 0) = (y < 0) then Fin 0 else NegZero) else to_lua (x * y))"
  by (simp add: lua_mul_def)

lemma safe_in_int64: "safe_int x \<Longrightarrow> in_int64 x"
  unfolding safe_int_def in_int64_def by simp arith

lemma safe_diff_in_int64: "safe_int x \<Longrightarrow> safe_int y \<Longrightarrow> in_int64 (x - y)"
  unfolding safe_int_def in_int64_def by simp arith

lemma safe_neg: "safe_int x \<Longrightarrow> safe_int (- x)"
  by (simp add: safe_int_def)

lemma int_arg_safe: "safe_int x \<Longrightarrow> int_arg srv (Fin x) = Some x"
  by (simp add: int_arg_def safe_int_def)

text \<open>
  The increment \<^verbatim>\<open>HINCRBY\<close> reads for a purchase within the exact range, when the
  server can read the negated cost at all.
\<close>

lemma neg_cost_arg:
  assumes "safe_int p" and "safe_int q" and "safe_int (p * q)"
    and "p * q \<noteq> 0 \<or> (p = 0 \<and> q < 0) \<or> (q = 0 \<and> p < 0) \<or> reads_neg_zero srv"
  shows "int_arg srv (lua_neg (lua_mul (to_lua p) (to_lua q))) = Some (- (p * q))"
proof (cases "p * q = 0")
  case False
  then have "lua_mul (to_lua p) (to_lua q) = Fin (p * q)"
    using assms by (simp add: to_lua_safe lua_mul_Fin)
  with False assms(3) show ?thesis
    by (simp add: int_arg_safe safe_neg)
next
  case True
  then have z: "p = 0 \<or> q = 0" by simp
  show ?thesis
  proof (cases "(p < 0) = (q < 0)")
    case True
    with z assms have "lua_mul (to_lua p) (to_lua q) = Fin 0" and "reads_neg_zero srv"
      by (auto simp: to_lua_safe lua_mul_Fin)
    with \<open>p * q = 0\<close> show ?thesis by (simp add: int_arg_def)
  next
    case False
    with z assms have "lua_mul (to_lua p) (to_lua q) = NegZero"
      by (auto simp: to_lua_safe lua_mul_Fin)
    with \<open>p * q = 0\<close> show ?thesis by (simp add: int_arg_def)
  qed
qed

lemma less_cost_exact:
  assumes "safe_int p" and "safe_int q" and "safe_int (p * q)" and "safe_int g"
  shows "lua_less (to_lua g) (lua_mul (to_lua p) (to_lua q)) = (g < p * q)"
  using assms by (auto simp: to_lua_safe lua_mul_Fin lua_less_def)

text \<open>
  A purchase within the exact range that passes both checks of the script and whose
  negated cost the server reads: the response and the whole store afterwards.
\<close>

lemma buy_script_done:
  assumes "items s iid = Some it" and "map_of (players s) pid = Some p"
    and "stock s iid = Some st" and "quantity \<le> st" and "price it * quantity \<le> gold p"
    and "safe_int st" and "safe_int quantity" and "safe_int (price it)" and "safe_int (gold p)"
    and "safe_int (price it * quantity)" and "safe_int (gold p - price it * quantity)"
    and "price it * quantity \<noteq> 0 \<or> (price it = 0 \<and> quantity < 0)
         \<or> (quantity = 0 \<and> price it < 0) \<or> reads_neg_zero srv"
  shows "buy_script srv s pid iid quantity =
           Script_done (gold p - price it * quantity)
             (s\<lparr>players := AList.update pid (p\<lparr>gold := gold p - price it * quantity\<rparr>) (players s),
                stock := (stock s)(iid \<mapsto> st - quantity),
                lb_gold := zadd (lb_gold s) pid (gold p - price it * quantity)\<rparr>)"
proof -
  have a: "int_arg srv (lua_neg (lua_mul (to_lua (price it)) (to_lua quantity))) =
             Some (- (price it * quantity))"
    using assms by (intro neg_cost_arg) simp_all
  have b: "lua_less (to_lua (gold p)) (lua_mul (to_lua (price it)) (to_lua quantity)) =
             (gold p < price it * quantity)"
    using assms by (intro less_cost_exact) simp_all
  have c: "in_int64 (- (price it * quantity))" "in_int64 (gold p + - (price it * quantity))"
    "in_int64 quantity" "in_int64 (- quantity)" "in_int64 (st - quantity)"
    using assms by (simp_all add: safe_in_int64 safe_neg safe_diff_in_int64)
  show ?thesis
    using assms a b c
    by (simp add: buy_script_def Let_def hget_gold_Some hincrby_existing to_lua_safe int_arg_safe)
qed

lemma shop_buy_done:
  assumes "items s iid = Some it" and "map_of (players s) pid = Some p"
    and "stock s iid = Some st" and "quantity \<le> st" and "price it * quantity \<le> gold p"
    and "safe_int st" and "safe_int quantity" and "safe_int (price it)" and "safe_int (gold p)"
    and "safe_int (price it * quantity)" and "safe_int (gold p - price it * quantity)"
    and "price it * quantity \<noteq> 0 \<or> (price it = 0 \<and> quantity < 0)
         \<or> (quantity = 0 \<and> price it < 0) \<or> reads_neg_zero srv"
  shows "shop_buy srv s uid_at time_at pid iid quantity =
           (Buy_ok (gold p - price it * quantity),
            s\<lparr>players := AList.update pid (p\<lparr>gold := gold p - price it * quantity\<rparr>) (players s),
              stock := (stock s)(iid \<mapsto> st - quantity),
              lb_gold := zadd (lb_gold s) pid (gold p - price it * quantity),
              inventory := (inventory s)(pid := inventory s pid @
                              new_items iid (name it) uid_at time_at quantity)\<rparr>)"
  using assms(1) buy_script_done [OF assms]
  by (simp add: shop_buy_def foldl_rpush_item new_items_def)

text \<open>The sample stores, and the evaluation of the script's arithmetic on numerals.\<close>

lemma safe_small [simp]:
  "safe_int 0" "safe_int 1" "safe_int (numeral n) = (numeral n < (2 ^ 53 :: int))"
  "safe_int (- numeral n) = (numeral n < (2 ^ 53 :: int))" "safe_int (- 1)"
  by (simp_all add: safe_int_def)

lemma shop_store_facts:
  "items shop_store ''sword_bronze'' = Some \<lparr>name = ''bronze sword'', price = 100\<rparr>"
  "map_of (players shop_store) ''1'' = Some \<lparr>username = Some ''ann'', gold = 1000\<rparr>"
  "stock shop_store ''sword_bronze'' = Some 5"
  "inventory shop_store ''1'' = []"
  "lb_gold shop_store = [(''1'', 1000)]"
  "players shop_store = [(''1'', \<lparr>username = Some ''ann'', gold = 1000\<rparr>)]"
  by (simp_all add: shop_store_def empty_store_def)

lemma rich_store_facts:
  "items rich_store ''sword_bronze'' = Some \<lparr>name = ''bronze sword'', price = 100\<rparr>"
  "map_of (players rich_store) ''1'' = Some \<lparr>username = Some ''ann'', gold = 9007199254741093\<rparr>"
  "stock rich_store ''sword_bronze'' = Some 5"
  "players rich_store = [(''1'', \<lparr>username = Some ''ann'', gold = 9007199254741093\<rparr>)]"
  "lb_gold rich_store = [(''1'', 9007199254741093)]"
  by (simp_all add: rich_store_def shop_store_def empty_store_def)

lemmas lua_eval =
  to_lua_def round53_def bit_length.simps Let_def lua_mul_def lua_less_def int_arg_def
  in_int64_def printf_server_def

lemmas shop_eval =
  shop_buy_def buy_script_def hget_gold_def hincrby_gold_def foldl_rpush_item

text \<open>
  C4, as stated, fails in four ways; each time the claim's two conditions
  (\<open>stock \<ge> quantity\<close>, \<open>gold \<ge> price * quantity\<close>) hold for an existing player and item.
  \<^item> Quantity \<open>-1\<close>: the purchase succeeds, but \<^verbatim>\<open>range(-1)\<close> is empty, so the inventory
    does not change by \<open>quantity\<close> items.
  \<^item> Quantity 2 with a clock and a random draw that give the same float in both passes of
    the loop: the two new items have the same \<^verbatim>\<open>unique_id\<close>.
  \<^item> Quantity 0 on a server that prints script arguments with \<^verbatim>\<open>%.17g\<close>: the script
    computes \<^verbatim>\<open>-total_cost\<close> as the double \<open>-0\<close>, \<^verbatim>\<open>HINCRBY\<close> refuses the argument
    \<^verbatim>\<open>-0\<close>, and the request is answered 500.
  \<^item> One unit at 100 gold for a player holding \<open>2 ^ 53 + 101\<close>: the gold left is
    \<open>2 ^ 53 + 1\<close>, which the script reads back as the double \<open>2 ^ 53\<close>; that is the score
    it writes to \<^verbatim>\<open>leaderboard:gold\<close> and the \<^verbatim>\<open>new_gold\<close> it returns, one less than
    the balance.
\<close>

theorem shop_buy_purchase_counterexample:
  "(- 1 :: int) \<le> 5 \<and> (100 :: int) * (- 1) \<le> 1000
   \<and> fst (shop_buy printf_server shop_store uid_sample time_sample ''1'' ''sword_bronze'' (- 1)) = Buy_ok 1100
   \<and> int (length (inventory (snd (shop_buy printf_server shop_store uid_sample time_sample ''1''
              ''sword_bronze'' (- 1))) ''1''))
       \<noteq> int (length (inventory shop_store ''1'')) + (- 1)
   \<and> fst (shop_buy printf_server shop_store uid_stuck time_sample ''1'' ''sword_bronze'' 2) = Buy_ok 800
   \<and> \<not> distinct (map unique_id (inventory (snd (shop_buy printf_server shop_store uid_stuck time_sample
              ''1'' ''sword_bronze'' 2)) ''1''))
   \<and> (0 :: int) \<le> 5 \<and> (100 :: int) * 0 \<le> 1000
   \<and> buy_status (fst (shop_buy printf_server shop_store uid_sample time_sample ''1'' ''sword_bronze'' 0)) = 500
   \<and> (1 :: int) \<le> 5 \<and> (100 :: int) * 1 \<le> 9007199254741093
   \<and> fst (shop_buy printf_server rich_store uid_sample time_sample ''1'' ''sword_bronze'' 1) =
         Buy_ok 9007199254740992
   \<and> hget_gold (snd (shop_buy printf_server rich_store uid_sample time_sample ''1''
         ''sword_bronze'' 1)) ''1'' = Some 9007199254740993
   \<and> zscore (lb_gold (snd (shop_buy printf_server rich_store uid_sample time_sample ''1''
         ''sword_bronze'' 1))) ''1'' = Some 9007199254740992"
proof -
  have neg: "shop_buy printf_server shop_store uid_sample time_sample ''1'' ''sword_bronze'' (- 1) =
      (Buy_ok 1100, shop_store\<lparr>players := [(''1'', \<lparr>username = Some ''ann'', gold = 1100\<rparr>)],
         stock := (stock shop_store)(''sword_bronze'' \<mapsto> 6),
         lb_gold := [(''1'', 1100)],
         inventory := (inventory shop_store)(''1'' := [])\<rparr>)"
    using shop_buy_done [of shop_store "''sword_bronze''" "\<lparr>name = ''bronze sword'', price = 100\<rparr>"
        "''1''" "\<lparr>username = Some ''ann'', gold = 1000\<rparr>" 5 "- 1" printf_server
        uid_sample time_sample]
    by (simp add: shop_store_facts zadd_def new_items_def)
  have two: "shop_buy printf_server shop_store uid_stuck time_sample ''1'' ''sword_bronze'' 2 =
      (Buy_ok 800, shop_store\<lparr>players := [(''1'', \<lparr>username = Some ''ann'', gold = 800\<rparr>)],
         stock := (stock shop_store)(''sword_bronze'' \<mapsto> 3),
         lb_gold := [(''1'', 800)],
         inventory := (inventory shop_store)(''1'' :=
           new_items ''sword_bronze'' ''bronze sword'' uid_stuck time_sample 2)\<rparr>)"
    using shop_buy_done [of shop_store "''sword_bronze''" "\<lparr>name = ''bronze sword'', price = 100\<rparr>"
        "''1''" "\<lparr>username = Some ''ann'', gold = 1000\<rparr>" 5 2 printf_server
        uid_stuck time_sample]
    by (simp add: shop_store_facts zadd_def)
  have zero: "fst (shop_buy printf_server shop_store uid_sample time_sample ''1'' ''sword_bronze'' 0) =
      Buy_script_failed"
    by (simp add: shop_eval shop_store_facts lua_eval)
  have big: "shop_buy printf_server rich_store uid_sample time_sample ''1'' ''sword_bronze'' 1 =
      (Buy_ok 9007199254740992,
       rpush_item ''1'' ''sword_bronze'' ''bronze sword'' uid_sample time_sample
         (rich_store\<lparr>players := [(''1'', \<lparr>username = Some ''ann'', gold = 9007199254740993\<rparr>)],
            stock := (stock rich_store)(''sword_bronze'' \<mapsto> 4),
            lb_gold := [(''1'', 9007199254740992)]\<rparr>) 0)"
    by (simp add: shop_buy_def buy_script_def hget_gold_def hincrby_gold_def
          rich_store_facts lua_eval zadd_def)
  show ?thesis
    using neg two zero big
    by (simp add: shop_store_facts uid_stuck_def new_items_def upt_rec rpush_item_def
          hget_gold_def zscore_def)
qed


text \<open>
  C4, amended: for an existing player and an existing item, a purchase of
  \<open>quantity \<ge> 1\<close> units with \<open>stock \<ge> quantity\<close>, \<open>gold \<ge> price * quantity\<close> and a total
  cost other than 0, where stock, quantity, price, gold, total cost and the gold left
  are all below \<open>2 ^ 53\<close> in absolute value (so that the script's doubles hold them
  exactly), succeeds on every server; it lowers the stock by \<open>quantity\<close> and the gold by
  \<open>price * quantity\<close>, sets the player's \<^verbatim>\<open>leaderboard:gold\<close> score to the new balance
  and appends exactly \<open>quantity\<close> inventory items, whose \<^verbatim>\<open>unique_id\<close>s are the values
  \<^verbatim>\<open>time.time() * 1000 + random.random()\<close> took in the loop: they are distinct exactly
  when those values are.
\<close>

theorem shop_buy_purchase:
  assumes "items s iid = Some it" and "map_of (players s) pid = Some p"
    and "stock s iid = Some st" and "0 < quantity"
    and "quantity \<le> st" and "price it * quantity \<le> gold p"
    and "price it * quantity \<noteq> 0"
    and "safe_int st" and "safe_int quantity" and "safe_int (price it)" and "safe_int (gold p)"
    and "safe_int (price it * quantity)" and "safe_int (gold p - price it * quantity)"
  shows "fst (shop_buy srv s uid_at time_at pid iid quantity) =
           Buy_ok (gold p - price it * quantity)
       \<and> buy_status (fst (shop_buy srv s uid_at time_at pid iid quantity)) = 200
       \<and> stock (snd (shop_buy srv s uid_at time_at pid iid quantity)) iid = Some (st - quantity)
       \<and> hget_gold (snd (shop_buy srv s uid_at time_at pid iid quantity)) pid =
           Some (gold p - price it * quantity)
       \<and> zscore (lb_gold (snd (shop_buy srv s uid_at time_at pid iid quantity))) pid =
           Some (gold p - price it * quantity)
       \<and> inventory (snd (shop_buy srv s uid_at time_at pid iid quantity)) pid =
           inventory s pid @ new_items iid (name it) uid_at time_at quantity
       \<and> int (length (new_items iid (name it) uid_at time_at quantity)) = quantity
       \<and> map unique_id (new_items iid (name it) uid_at time_at quantity) =
           map uid_at [0..<nat quantity]
       \<and> distinct (map unique_id (new_items iid (name it) uid_at time_at quantity)) =
           inj_on uid_at {..<nat quantity}"
proof -
  have ids: "map unique_id (new_items iid (name it) uid_at time_at quantity) =
             map uid_at [0..<nat quantity]"
    by (simp add: new_items_def comp_def)
  have inj: "distinct (map uid_at [0..<nat quantity]) = inj_on uid_at {..<nat quantity}"
    by (simp add: distinct_map lessThan_atLeast0)
  have len: "int (length (new_items iid (name it) uid_at time_at quantity)) = quantity"
    using assms(4) by (simp add: new_items_def)
  have res: "shop_buy srv s uid_at time_at pid iid quantity =
           (Buy_ok (gold p - price it * quantity),
            s\<lparr>players := AList.update pid (p\<lparr>gold := gold p - price it * quantity\<rparr>) (players s),
              stock := (stock s)(iid \<mapsto> st - quantity),
              lb_gold := zadd (lb_gold s) pid (gold p - price it * quantity),
              inventory := (inventory s)(pid := inventory s pid @
                              new_items iid (name it) uid_at time_at quantity)\<rparr>)"
    using assms by (intro shop_buy_done) simp_all
  show ?thesis
    unfolding res using ids inj len
    by (simp add: hget_gold_def update_conv' zscore_zadd)
qed

text \<open>
  The scenario of the specification: 1000 gold, 2 units of an item priced 100 with 5 in
  stock, leaving 800 gold, 3 in stock and 2 more inventory items.
\<close>

theorem shop_buy_purchase_witness:
  "items shop_store ''sword_bronze'' = Some \<lparr>name = ''bronze sword'', price = 100\<rparr>
   \<and> map_of (players shop_store) ''1'' = Some \<lparr>username = Some ''ann'', gold = 1000\<rparr>
   \<and> stock shop_store ''sword_bronze'' = Some 5
   \<and> (0 :: int) < 2 \<and> (2 :: int) \<le> 5 \<and> (100 :: int) * 2 \<le> 1000 \<and> (100 :: int) * 2 \<noteq> 0
   \<and> safe_int 5 \<and> safe_int 2 \<and> safe_int 100 \<and> safe_int 1000 \<and> safe_int (100 * 2)
   \<and> safe_int (1000 - 100 * 2)
   \<and> inj_on uid_sample {..<nat 2}
   \<and> fst (shop_buy printf_server shop_store uid_sample time_sample ''1'' ''sword_bronze'' 2) = Buy_ok 800
   \<and> hget_gold (snd (shop_buy printf_server shop_store uid_sample time_sample ''1'' ''sword_bronze'' 2)) ''1'' =
       Some 800
   \<and> stock (snd (shop_buy printf_server shop_store uid_sample time_sample ''1'' ''sword_bronze'' 2))
       ''sword_bronze'' = Some 3
   \<and> zscore (lb_gold (snd (shop_buy printf_server shop_store uid_sample time_sample ''1'' ''sword_bronze'' 2)))
       ''1'' = Some 800
   \<and> length (inventory (snd (shop_buy printf_server shop_store uid_sample time_sample ''1''
         ''sword_bronze'' 2)) ''1'') = length (inventory shop_store ''1'') + 2
   \<and> distinct (map unique_id (inventory (snd (shop_buy printf_server shop_store uid_sample time_sample
         ''1'' ''sword_bronze'' 2)) ''1''))"
  using shop_buy_purchase [of shop_store "''sword_bronze''"
      "\<lparr>name = ''bronze sword'', price = 100\<rparr>" "''1''"
      "\<lparr>username = Some ''ann'', gold = 1000\<rparr>" 5 2 printf_server uid_sample time_sample]
    inj_uid_sample [of "{..<nat 2}"]
  by (auto simp add: shop_store_facts)

text \<open>
  C10, as stated, fails for large negative quantities; each time \<open>q < 0\<close>, \<open>stock \<ge> q\<close>
  and \<open>gold \<ge> price * q\<close> hold for an existing player and item.
  \<^item> \<open>q = -10 ^ 17\<close> at price 100: the script passes both comparisons and calls
    \<^verbatim>\<open>HINCRBY\<close> with \<open>10 ^ 19\<close>, which is no 64-bit integer (a server printing with
    \<^verbatim>\<open>%.17g\<close> sends \<^verbatim>\<open>1e+19\<close>); the script fails, the answer is 500 and nothing is
    changed.
  \<^item> \<open>q = -360287970189641\<close> at price 100: the cost \<open>-36028797018964100\<close> is no double,
    the script computes \<open>-36028797018964096\<close>, and the player is credited 4 gold less
    than \<open>price * (-q)\<close>.
\<close>

theorem shop_buy_negative_quantity_counterexample:
  "(- 100000000000000000 :: int) < 0 \<and> (- 100000000000000000 :: int) \<le> 5
   \<and> (100 :: int) * (- 100000000000000000) \<le> 1000
   \<and> shop_buy printf_server shop_store uid_sample time_sample ''1'' ''sword_bronze''
        (- 100000000000000000) = (Buy_script_failed, shop_store)
   \<and> buy_status Buy_script_failed = 500
   \<and> (- 360287970189641 :: int) < 0 \<and> (- 360287970189641 :: int) \<le> 5
   \<and> (100 :: int) * (- 360287970189641) \<le> 1000
   \<and> fst (shop_buy printf_server shop_store uid_sample time_sample ''1'' ''sword_bronze''
        (- 360287970189641)) = Buy_ok 36028797018965096
   \<and> hget_gold (snd (shop_buy printf_server shop_store uid_sample time_sample ''1'' ''sword_bronze''
        (- 360287970189641))) ''1'' = Some 36028797018965096
   \<and> (1000 :: int) + 100 * (- (- 360287970189641)) = 36028797018965100"
proof -
  have wide: "shop_buy printf_server shop_store uid_sample time_sample ''1'' ''sword_bronze''
        (- 100000000000000000) = (Buy_script_failed, shop_store)"
    by (simp add: shop_eval shop_store_facts lua_eval)
  have odd: "shop_buy printf_server shop_store uid_sample time_sample ''1'' ''sword_bronze''
        (- 360287970189641) =
      (Buy_ok 36028797018965096,
       shop_store\<lparr>players := [(''1'', \<lparr>username = Some ''ann'', gold = 36028797018965096\<rparr>)],
         stock := (stock shop_store)(''sword_bronze'' \<mapsto> 360287970189646),
         lb_gold := [(''1'', 36028797018965096)]\<rparr>)"
    by (simp add: shop_eval shop_store_facts lua_eval zadd_def)
  show ?thesis
    using wide odd by (simp add: hget_gold_def)
qed

text \<open>
  C10, amended: \<^verbatim>\<open>shop_buy\<close> does not check that the quantity is positive. For an
  existing item and player, a request with a negative quantity \<open>q\<close> that passes the
  script's two comparisons (\<open>stock \<ge> q\<close> and \<open>gold \<ge> price * q\<close>), where stock, \<open>q\<close>,
  price, gold, \<open>price * q\<close> and the resulting gold are all below \<open>2 ^ 53\<close> in absolute
  value, returns success on every server, raises the player's gold by \<open>price * (-q)\<close>
  and the stock by \<open>-q\<close>, sets the \<^verbatim>\<open>leaderboard:gold\<close> score to the raised balance and
  appends no inventory item.
\<close>

theorem shop_buy_negative_quantity:
  assumes "items s iid = Some it" and "map_of (players s) pid = Some p"
    and "stock s iid = Some st" and "quantity < 0"
    and "quantity \<le> st" and "price it * quantity \<le> gold p"
    and "safe_int st" and "safe_int quantity" and "safe_int (price it)" and "safe_int (gold p)"
    and "safe_int (price it * quantity)" and "safe_int (gold p - price it * quantity)"
  shows "fst (shop_buy srv s uid_at time_at pid iid quantity) =
           Buy_ok (gold p + price it * (- quantity))
       \<and> buy_status (fst (shop_buy srv s uid_at time_at pid iid quantity)) = 200
       \<and> hget_gold (snd (shop_buy srv s uid_at time_at pid iid quantity)) pid =
           Some (gold p + price it * (- quantity))
       \<and> stock (snd (shop_buy srv s uid_at time_at pid iid quantity)) iid = Some (st + (- quantity))
       \<and> zscore (lb_gold (snd (shop_buy srv s uid_at time_at pid iid quantity))) pid =
           Some (gold p + price it * (- quantity))
       \<and> inventory (snd (shop_buy srv s uid_at time_at pid iid quantity)) = inventory s"
proof -
  have zero: "price it * quantity \<noteq> 0 \<or> (price it = 0 \<and> quantity < 0)
         \<or> (quantity = 0 \<and> price it < 0) \<or> reads_neg_zero srv"
    using assms(4) by auto
  have res: "shop_buy srv s uid_at time_at pid iid quantity =
           (Buy_ok (gold p - price it * quantity),
            s\<lparr>players := AList.update pid (p\<lparr>gold := gold p - price it * quantity\<rparr>) (players s),
              stock := (stock s)(iid \<mapsto> st - quantity),
              lb_gold := zadd (lb_gold s) pid (gold p - price it * quantity),
              inventory := (inventory s)(pid := inventory s pid @
                              new_items iid (name it) uid_at time_at quantity)\<rparr>)"
    using assms zero by (intro shop_buy_done) simp_all
  show ?thesis
    unfolding res using assms(4)
    by (simp add: new_items_def hget_gold_def update_conv' zscore_zadd)
qed

theorem shop_buy_negative_quantity_witness:
  "items shop_store ''sword_bronze'' = Some \<lparr>name = ''bronze sword'', price = 100\<rparr>
   \<and> map_of (players shop_store) ''1'' = Some \<lparr>username = Some ''ann'', gold = 1000\<rparr>
   \<and> stock shop_store ''sword_bronze'' = Some 5
   \<and> (- 3 :: int) < 0 \<and> (- 3 :: int) \<le> 5 \<and> (100 :: int) * (- 3) \<le> 1000
   \<and> safe_int 5 \<and> safe_int (- 3) \<and> safe_int 100 \<and> safe_int 1000 \<and> safe_int (100 * (- 3))
   \<and> safe_int (1000 - 100 * (- 3))
   \<and> fst (shop_buy printf_server shop_store uid_sample time_sample ''1'' ''sword_bronze'' (- 3)) = Buy_ok 1300
   \<and> hget_gold (snd (shop_buy printf_server shop_store uid_sample time_sample ''1'' ''sword_bronze'' (- 3)))
       ''1'' = Some 1300
   \<and> stock (snd (shop_buy printf_server shop_store uid_sample time_sample ''1'' ''sword_bronze'' (- 3)))
       ''sword_bronze'' = Some 8
   \<and> zscore (lb_gold (snd (shop_buy printf_server shop_store uid_sample time_sample ''1'' ''sword_bronze''
       (- 3)))) ''1'' = Some 1300
   \<and> inventory (snd (shop_buy printf_server shop_store uid_sample time_sample ''1'' ''sword_bronze'' (- 3)))
       ''1'' = []"
  using shop_buy_negative_quantity [of shop_store "''sword_bronze''"
      "\<lparr>name = ''bronze sword'', price = 100\<rparr>" "''1''"
      "\<lparr>username = Some ''ann'', gold = 1000\<rparr>" 5 "- 3" printf_server uid_sample time_sample]
  by (simp add: shop_store_facts)

subsection \<open>Rejections\<close>

lemma auction_store_facts:
  "auctions auction_store ''auction:1700000000000'' = Some sample_auction"
  "map_of (players auction_store) ''1'' = Some \<lparr>username = Some ''ann'', gold = 1000\<rparr>"
  "map_of (players auction_store) ''2'' = Some \<lparr>username = Some ''bob'', gold = 1000\<rparr>"
  "map_of (players auction_store) ''3'' = Some \<lparr>username = Some ''cat'', gold = 1000\<rparr>"
  "items auction_store ''sword_bronze'' = Some \<lparr>name = ''bronze sword'', price = 100\<rparr>"
  "stock auction_store ''sword_bronze'' = Some 20"
  by (simp_all add: auction_store_def empty_store_def)

text \<open>
  C3: every business-rule rejection leaves the whole store as it was. A bid that is not
  above the current price, or that the bidder's gold does not cover, is answered
  \<open>Bid_too_low\<close> or \<open>Bid_insufficient_funds\<close> with the store unchanged. A purchase
  for which the script finds \<^verbatim>\<open>stock < quantity\<close>, or then \<^verbatim>\<open>player_gold < total_cost\<close>,
  is answered \<open>OutOfStock\<close> or \<open>InsufficientFunds\<close> with the store unchanged; the
  script compares doubles, and where the numbers are below \<open>2 ^ 53\<close> in absolute value
  these are the comparisons \<open>stock < quantity\<close> and \<open>gold < price * quantity\<close> of integers.
  And whenever one of these answers is given, the store is unchanged: no gold,
  leaderboard entry, auction field, stock counter or inventory differs.
\<close>

theorem rejections_change_nothing:
  "(auctions s aid = Some a \<and> amount \<le> current_price a \<longrightarrow>
      auction_bid s aid pid amount = (Bid_too_low, s))
   \<and> (auctions s aid = Some a \<and> current_price a < amount \<and> hget_gold s pid = Some g \<and> g < amount \<longrightarrow>
      auction_bid s aid pid amount = (Bid_insufficient_funds, s))
   \<and> (fst (auction_bid s aid pid amount) \<in> {Bid_too_low, Bid_insufficient_funds} \<longrightarrow>
      snd (auction_bid s aid pid amount) = s)
   \<and> (items s iid = Some it \<and> stock s iid = Some st \<and> lua_less (to_lua st) (to_lua quantity) \<longrightarrow>
      shop_buy srv s uid_at time_at pid iid quantity = (Buy_rejected OutOfStock, s))
   \<and> (items s iid = Some it \<and> stock s iid = Some st \<and> safe_int st \<and> safe_int quantity
        \<and> st < quantity \<longrightarrow>
      shop_buy srv s uid_at time_at pid iid quantity = (Buy_rejected OutOfStock, s))
   \<and> (items s iid = Some it \<and> stock s iid = Some st \<and> \<not> lua_less (to_lua st) (to_lua quantity)
        \<and> hget_gold s pid = Some g
        \<and> lua_less (to_lua g) (lua_mul (to_lua (price it)) (to_lua quantity)) \<longrightarrow>
      shop_buy srv s uid_at time_at pid iid quantity = (Buy_rejected InsufficientFunds, s))
   \<and> (items s iid = Some it \<and> stock s iid = Some st \<and> quantity \<le> st
        \<and> hget_gold s pid = Some g \<and> g < price it * quantity
        \<and> safe_int st \<and> safe_int quantity \<and> safe_int (price it) \<and> safe_int g
        \<and> safe_int (price it * quantity) \<longrightarrow>
      shop_buy srv s uid_at time_at pid iid quantity = (Buy_rejected InsufficientFunds, s))
   \<and> (fst (shop_buy srv s uid_at time_at pid iid quantity) = Buy_rejected why \<longrightarrow>
      snd (shop_buy srv s uid_at time_at pid iid quantity) = s)"
proof -
  have bid_low: "auctions s aid = Some a \<and> amount \<le> current_price a \<longrightarrow>
      auction_bid s aid pid amount = (Bid_too_low, s)"
    by (simp add: auction_bid_def)
  have bid_poor: "auctions s aid = Some a \<and> current_price a < amount \<and> hget_gold s pid = Some g \<and> g < amount \<longrightarrow>
      auction_bid s aid pid amount = (Bid_insufficient_funds, s)"
    by (simp add: auction_bid_def)
  have bid_any: "fst (auction_bid s aid pid amount) \<in> {Bid_too_low, Bid_insufficient_funds} \<longrightarrow>
      snd (auction_bid s aid pid amount) = s"
    by (simp add: auction_bid_def Let_def split_def split: option.splits)
  have buy_stock: "items s iid = Some it \<and> stock s iid = Some st
        \<and> lua_less (to_lua st) (to_lua quantity) \<longrightarrow>
      shop_buy srv s uid_at time_at pid iid quantity = (Buy_rejected OutOfStock, s)"
    by (simp add: shop_buy_def buy_script_def)
  have buy_stock_int: "items s iid = Some it \<and> stock s iid = Some st \<and> safe_int st \<and> safe_int quantity
        \<and> st < quantity \<longrightarrow>
      shop_buy srv s uid_at time_at pid iid quantity = (Buy_rejected OutOfStock, s)"
    by (simp add: shop_buy_def buy_script_def to_lua_safe)
  have buy_poor: "items s iid = Some it \<and> stock s iid = Some st
        \<and> \<not> lua_less (to_lua st) (to_lua quantity) \<and> hget_gold s pid = Some g
        \<and> lua_less (to_lua g) (lua_mul (to_lua (price it)) (to_lua quantity)) \<longrightarrow>
      shop_buy srv s uid_at time_at pid iid quantity = (Buy_rejected InsufficientFunds, s)"
    by (simp add: shop_buy_def buy_script_def)
  have buy_poor_int: "items s iid = Some it \<and> stock s iid = Some st \<and> quantity \<le> st
        \<and> hget_gold s pid = Some g \<and> g < price it * quantity
        \<and> safe_int st \<and> safe_int quantity \<and> safe_int (price it) \<and> safe_int g
        \<and> safe_int (price it * quantity) \<longrightarrow>
      shop_buy srv s uid_at time_at pid iid quantity = (Buy_rejected InsufficientFunds, s)"
  proof
    assume h: "items s iid = Some it \<and> stock s iid = Some st \<and> quantity \<le> st
        \<and> hget_gold s pid = Some g \<and> g < price it * quantity
        \<and> safe_int st \<and> safe_int quantity \<and> safe_int (price it) \<and> safe_int g
        \<and> safe_int (price it * quantity)"
    then have "\<not> lua_less (to_lua st) (to_lua quantity)"
      by (simp add: to_lua_safe)
    moreover from h have "lua_less (to_lua g) (lua_mul (to_lua (price it)) (to_lua quantity))"
      by (simp add: less_cost_exact)
    ultimately show "shop_buy srv s uid_at time_at pid iid quantity = (Buy_rejected InsufficientFunds, s)"
      using h by (simp add: shop_buy_def buy_script_def)
  qed
  have buy_any: "fst (shop_buy srv s uid_at time_at pid iid quantity) = Buy_rejected why \<longrightarrow>
      snd (shop_buy srv s uid_at time_at pid iid quantity) = s"
    by (simp add: shop_buy_def split: option.splits script_result.splits)
  from bid_low bid_poor bid_any buy_stock buy_stock_int buy_poor buy_poor_int buy_any
  show ?thesis by blast
qed

theorem rejections_change_nothing_witness:
  "auctions auction_store ''auction:1700000000000'' = Some sample_auction
   \<and> (40 :: int) \<le> current_price sample_auction
   \<and> auction_bid auction_store ''auction:1700000000000'' ''2'' 40 = (Bid_too_low, auction_store)
   \<and> current_price sample_auction < 5000
   \<and> hget_gold auction_store ''2'' = Some 1000 \<and> (1000 :: int) < 5000
   \<and> auction_bid auction_store ''auction:1700000000000'' ''2'' 5000 = (Bid_insufficient_funds, auction_store)
   \<and> fst (auction_bid auction_store ''auction:1700000000000'' ''2'' 5000) \<in> {Bid_too_low, Bid_insufficient_funds}
   \<and> snd (auction_bid auction_store ''auction:1700000000000'' ''2'' 5000) = auction_store
   \<and> items auction_store ''sword_bronze'' = Some \<lparr>name = ''bronze sword'', price = 100\<rparr>
   \<and> stock auction_store ''sword_bronze'' = Some 20 \<and> (20 :: int) < 21
   \<and> safe_int 20 \<and> safe_int 21 \<and> lua_less (to_lua 20) (to_lua 21)
   \<and> shop_buy printf_server auction_store uid_sample time_sample ''2'' ''sword_bronze'' 21 =
       (Buy_rejected OutOfStock, auction_store)
   \<and> (11 :: int) \<le> 20 \<and> (1000 :: int) < price \<lparr>name = ''bronze sword'', price = 100\<rparr> * 11
   \<and> safe_int 11 \<and> safe_int 100 \<and> safe_int 1000 \<and> safe_int (100 * 11)
   \<and> \<not> lua_less (to_lua 20) (to_lua 11)
   \<and> lua_less (to_lua 1000) (lua_mul (to_lua 100) (to_lua 11))
   \<and> shop_buy printf_server auction_store uid_sample time_sample ''2'' ''sword_bronze'' 11 =
       (Buy_rejected InsufficientFunds, auction_store)
   \<and> fst (shop_buy printf_server auction_store uid_sample time_sample ''2'' ''sword_bronze'' 11) =
       Buy_rejected InsufficientFunds
   \<and> snd (shop_buy printf_server auction_store uid_sample time_sample ''2'' ''sword_bronze'' 11) = auction_store"
  using rejections_change_nothing [of auction_store "''auction:1700000000000''" sample_auction 40 "''2''" 1000
      "''sword_bronze''" "\<lparr>name = ''bronze sword'', price = 100\<rparr>" 20 21 printf_server
      uid_sample time_sample OutOfStock]
    rejections_change_nothing [of auction_store "''auction:1700000000000''" sample_auction 5000 "''2''" 1000
      "''sword_bronze''" "\<lparr>name = ''bronze sword'', price = 100\<rparr>" 20 11 printf_server
      uid_sample time_sample InsufficientFunds]
    auction_store_facts
  by (simp add: hget_gold_def sample_auction_def to_lua_safe lua_mul_Fin)

subsection \<open>Bids\<close>





subsection \<open>Buyout\<close>








subsection \<open>Clicks\<close>

lemma prior_combo_nonneg: "combo_nonneg s \<Longrightarrow> 0 \<le> prior_combo s srv_ms pid"
  by (auto simp: combo_nonneg_def prior_combo_def live_combo_def split: option.splits if_splits)

text \<open>The response and the store of a click that passes both gates.\<close>

lemma click_accepted:
  assumes "map_of (players s) pid \<noteq> None"
    and "int (zcard (pruned s now_ms pid)) < config_max_hits s"
    and "live_cooldown s srv_ms pid = None"
  shows "click s now_ms srv_ms rnd pid =
    (Click_ok \<lparr>cr_reward = fst (click_reward (prior_combo s srv_ms pid) rnd),
               cr_gold = lua_val (to_lua (balance s pid + fst (click_reward (prior_combo s srv_ms pid) rnd))),
               cr_combo = prior_combo s srv_ms pid + 1,
               cr_critical = snd (click_reward (prior_combo s srv_ms pid) rnd),
               cr_total_clicks = lua_val (to_lua (click_count s pid + 1)),
               cr_cooldown_ms = config_cooldown_ms s,
               cr_rate_limit_window_ms = config_window_ms s,
               cr_rate_limit_max_hits = config_max_hits s\<rparr>,
     s\<lparr>rate := (rate s)(pid := zadd (pruned s now_ms pid) (str now_ms) now_ms),
       cooldown := (if 0 < config_cooldown_ms s
                    then (cooldown s)(pid \<mapsto> srv_ms + config_cooldown_ms s) else cooldown s),
       players := AList.update pid
          ((the (map_of (players s) pid))
             \<lparr>gold := balance s pid + fst (click_reward (prior_combo s srv_ms pid) rnd)\<rparr>) (players s),
       clicks := (clicks s)(pid \<mapsto> click_count s pid + 1),
       lb_gold := zadd (lb_gold s) pid
          (lua_val (to_lua (balance s pid + fst (click_reward (prior_combo s srv_ms pid) rnd)))),
       lb_clicks := zadd (lb_clicks s) pid (lua_val (to_lua (click_count s pid + 1))),
       combo := (combo s)(pid \<mapsto> (prior_combo s srv_ms pid + 1, srv_ms + 10000))\<rparr>)"
  using assms
  by (auto simp: click_def Let_def pruned_def live_cooldown_def live_combo_def prior_combo_def
        click_script_def hincrby_gold_def balance_def config_cooldown_ms_def click_count_def
        config_window_ms_def config_max_hits_def split_def
        split: option.splits)

lemma click_ok_gates:
  assumes "fst (click s now_ms srv_ms rnd pid) = Click_ok res"
  shows "map_of (players s) pid \<noteq> None
       \<and> int (zcard (pruned s now_ms pid)) < config_max_hits s
       \<and> live_cooldown s srv_ms pid = None"
  using assms
  by (auto simp: click_def Let_def pruned_def live_cooldown_def split_def
        split: option.splits if_splits)

lemma click_store_facts:
  "map_of (players click_store) ''1'' = Some \<lparr>username = Some ''ann'', gold = 1010\<rparr>"
  "rate click_store ''1'' = [(''1700000000000'', 1700000000000)]"
  "cooldown click_store ''1'' = Some 1700000000500"
  "combo click_store ''1'' = Some (1, 1700000010000)"
  "clicks click_store ''1'' = Some 1"
  "cfg_cooldown_ms click_store = None" "cfg_window_ms click_store = None"
  "cfg_max_hits click_store = None"
  "lb_gold click_store = [(''1'', 1010)]" "lb_clicks click_store = [(''1'', 1)]"
  by (simp_all add: click_store_def shop_store_def empty_store_def)

lemma click_store_combo_nonneg: "combo_nonneg click_store"
  by (simp add: combo_nonneg_def click_store_def shop_store_def empty_store_def)

lemma click_store_config:
  "config_cooldown_ms click_store = 500" "config_window_ms click_store = 1000"
  "config_max_hits click_store = 3"
  by (simp_all add: config_cooldown_ms_def config_window_ms_def config_max_hits_def click_store_facts)

lemma click_store_accepts:
  "fst (click click_store 1700000000600 1700000000600 rnd ''1'') =
     Click_ok \<lparr>cr_reward = fst (click_reward 1 rnd),
               cr_gold = lua_val (to_lua (1010 + fst (click_reward 1 rnd))),
               cr_combo = 2, cr_critical = snd (click_reward 1 rnd), cr_total_clicks = 2,
               cr_cooldown_ms = 500, cr_rate_limit_window_ms = 1000,
               cr_rate_limit_max_hits = 3\<rparr>"
proof -
  have "map_of (players click_store) ''1'' \<noteq> None"
    and "int (zcard (pruned click_store 1700000000600 ''1'')) < config_max_hits click_store"
    and "live_cooldown click_store 1700000000600 ''1'' = None"
    and "prior_combo click_store 1700000000600 ''1'' = 1"
    and "balance click_store ''1'' = 1010"
    and "click_count click_store ''1'' = 1"
    by (simp_all add: click_store_facts click_store_config pruned_def zremrangebyscore_def
          zcard_def live_cooldown_def prior_combo_def live_combo_def balance_def click_count_def)
  then show ?thesis
    using click_accepted [of click_store "''1''" 1700000000600 1700000000600 rnd]
    by (simp add: click_store_facts click_store_config to_lua_safe)
qed

text \<open>
  C7: for every accepted click, with \<open>c\<close> the combo read before it (0 when the key is
  absent or expired), the reward is \<open>10 + min (c * 2) 50\<close> when the draw
  \<^verbatim>\<open>random.random() < 0.1\<close> fails and twice that when it succeeds; the reward is
  positive; the response reports the combo \<open>c + 1\<close>, which is also what is stored, so
  stored combos stay non-negative.
\<close>

theorem click_reward_value:
  assumes "combo_nonneg s" and "fst (click s now_ms srv_ms rnd pid) = Click_ok res"
  shows "cr_reward res =
           (if rnd < 1 / 10 then (10 + min (prior_combo s srv_ms pid * 2) 50) * 2
            else 10 + min (prior_combo s srv_ms pid * 2) 50)
       \<and> cr_critical res = (rnd < 1 / 10)
       \<and> 0 < cr_reward res
       \<and> cr_combo res = prior_combo s srv_ms pid + 1
       \<and> combo (snd (click s now_ms srv_ms rnd pid)) pid = Some (prior_combo s srv_ms pid + 1, srv_ms + 10000)
       \<and> combo_nonneg (snd (click s now_ms srv_ms rnd pid))"
proof -
  note gates = click_ok_gates [OF assms(2)]
  have eq: "click s now_ms srv_ms rnd pid = (Click_ok res, snd (click s now_ms srv_ms rnd pid))"
    using assms(2) by (metis prod.collapse)
  have nn: "0 \<le> prior_combo s srv_ms pid"
    by (rule prior_combo_nonneg [OF assms(1)])
  from gates have acc: "click s now_ms srv_ms rnd pid = (Click_ok res, snd (click s now_ms srv_ms rnd pid))
      \<and> res = \<lparr>cr_reward = fst (click_reward (prior_combo s srv_ms pid) rnd),
               cr_gold = lua_val (to_lua (balance s pid + fst (click_reward (prior_combo s srv_ms pid) rnd))),
               cr_combo = prior_combo s srv_ms pid + 1,
               cr_critical = snd (click_reward (prior_combo s srv_ms pid) rnd),
               cr_total_clicks = lua_val (to_lua (click_count s pid + 1)),
               cr_cooldown_ms = config_cooldown_ms s,
               cr_rate_limit_window_ms = config_window_ms s,
               cr_rate_limit_max_hits = config_max_hits s\<rparr>
      \<and> combo (snd (click s now_ms srv_ms rnd pid)) = (combo s)(pid \<mapsto> (prior_combo s srv_ms pid + 1, srv_ms + 10000))"
    using eq click_accepted [of s pid now_ms srv_ms rnd] by simp
  have keep: "combo_nonneg (snd (click s now_ms srv_ms rnd pid))"
    using acc nn assms(1) by (auto simp: combo_nonneg_def)
  from acc nn keep show ?thesis
    by (auto simp: click_reward_def Let_def min_def)
qed

theorem click_reward_value_witness:
  "combo_nonneg click_store
   \<and> fst (click click_store 1700000000600 1700000000600 (1 / 2) ''1'') =
        Click_ok \<lparr>cr_reward = 12, cr_gold = 1022, cr_combo = 2, cr_critical = False,
                  cr_total_clicks = 2, cr_cooldown_ms = 500, cr_rate_limit_window_ms = 1000,
                  cr_rate_limit_max_hits = 3\<rparr>
   \<and> fst (click click_store 1700000000600 1700000000600 (1 / 20) ''1'') =
        Click_ok \<lparr>cr_reward = 24, cr_gold = 1034, cr_combo = 2, cr_critical = True,
                  cr_total_clicks = 2, cr_cooldown_ms = 500, cr_rate_limit_window_ms = 1000,
                  cr_rate_limit_max_hits = 3\<rparr>
   \<and> prior_combo click_store 1700000000600 ''1'' = 1
   \<and> combo (snd (click click_store 1700000000600 1700000000600 (1 / 2) ''1'')) ''1'' = Some (2, 1700000010600)
   \<and> combo_nonneg (snd (click click_store 1700000000600 1700000000600 (1 / 20) ''1''))"
proof -
  have a: "fst (click click_store 1700000000600 1700000000600 (1 / 2) ''1'') =
        Click_ok \<lparr>cr_reward = 12, cr_gold = 1022, cr_combo = 2, cr_critical = False,
                  cr_total_clicks = 2, cr_cooldown_ms = 500, cr_rate_limit_window_ms = 1000,
                  cr_rate_limit_max_hits = 3\<rparr>"
    by (simp add: click_store_accepts click_reward_def to_lua_safe)
  have b: "fst (click click_store 1700000000600 1700000000600 (1 / 20) ''1'') =
        Click_ok \<lparr>cr_reward = 24, cr_gold = 1034, cr_combo = 2, cr_critical = True,
                  cr_total_clicks = 2, cr_cooldown_ms = 500, cr_rate_limit_window_ms = 1000,
                  cr_rate_limit_max_hits = 3\<rparr>"
    by (simp add: click_store_accepts click_reward_def to_lua_safe)
  have c: "prior_combo click_store 1700000000600 ''1'' = 1"
    by (simp add: prior_combo_def live_combo_def click_store_facts)
  from click_reward_value [OF click_store_combo_nonneg a]
       click_reward_value [OF click_store_combo_nonneg b] a b c click_store_combo_nonneg
  show ?thesis by simp
qed

text \<open>
  C6: a click that passes the sliding-window gate while a cooldown marker is live is
  answered 429 with the marker's remaining time (the configured cooldown when no time
  remains); and after every click answered that
  way the player's rate record holds the timestamp of this click, while the rate record
  is the only part of the store that changed: gold, click counter, combo and both
  leaderboards are as before.
\<close>

theorem cooldown_rejection_keeps_slot:
  "(map_of (players s) pid \<noteq> None
      \<and> int (zcard (pruned s now_ms pid)) < config_max_hits s
      \<and> live_cooldown s srv_ms pid = Some expiry \<longrightarrow>
        fst (click s now_ms srv_ms rnd pid) =
          Click_cooling_down (if 0 < expiry - srv_ms then expiry - srv_ms else config_cooldown_ms s)
      \<and> click_status (fst (click s now_ms srv_ms rnd pid)) = 429)
   \<and> (fst (click s now_ms srv_ms rnd pid) = Click_cooling_down ms \<longrightarrow>
        zscore (rate (snd (click s now_ms srv_ms rnd pid)) pid) (str now_ms) = Some now_ms
      \<and> snd (click s now_ms srv_ms rnd pid) =
          s\<lparr>rate := (rate s)(pid := zadd (pruned s now_ms pid) (str now_ms) now_ms)\<rparr>
      \<and> players (snd (click s now_ms srv_ms rnd pid)) = players s
      \<and> clicks (snd (click s now_ms srv_ms rnd pid)) = clicks s
      \<and> combo (snd (click s now_ms srv_ms rnd pid)) = combo s
      \<and> lb_gold (snd (click s now_ms srv_ms rnd pid)) = lb_gold s
      \<and> lb_clicks (snd (click s now_ms srv_ms rnd pid)) = lb_clicks s)"
proof -
  have first: "map_of (players s) pid \<noteq> None
      \<and> int (zcard (pruned s now_ms pid)) < config_max_hits s
      \<and> live_cooldown s srv_ms pid = Some expiry \<longrightarrow>
        fst (click s now_ms srv_ms rnd pid) =
          Click_cooling_down (if 0 < expiry - srv_ms then expiry - srv_ms else config_cooldown_ms s)
      \<and> click_status (fst (click s now_ms srv_ms rnd pid)) = 429"
    by (auto simp: click_def Let_def pruned_def live_cooldown_def split: option.splits if_splits)
  have second: "fst (click s now_ms srv_ms rnd pid) = Click_cooling_down ms \<longrightarrow>
        snd (click s now_ms srv_ms rnd pid) =
          s\<lparr>rate := (rate s)(pid := zadd (pruned s now_ms pid) (str now_ms) now_ms)\<rparr>"
    by (auto simp: click_def Let_def pruned_def live_cooldown_def split_def
          split: option.splits if_splits)
  have third: "zscore (rate (s\<lparr>rate := (rate s)(pid := zadd (pruned s now_ms pid) (str now_ms) now_ms)\<rparr>) pid)
      (str now_ms) = Some now_ms"
    by (simp add: zscore_zadd)
  from first second third show ?thesis by auto
qed

theorem cooldown_rejection_keeps_slot_witness:
  "map_of (players click_store) ''1'' \<noteq> None
   \<and> int (zcard (pruned click_store 1700000000100 ''1'')) < config_max_hits click_store
   \<and> live_cooldown click_store 1700000000100 ''1'' = Some 1700000000500
   \<and> fst (click click_store 1700000000100 1700000000100 (1 / 2) ''1'') = Click_cooling_down 400
   \<and> zscore (rate (snd (click click_store 1700000000100 1700000000100 (1 / 2) ''1'')) ''1'') (str 1700000000100)
        = Some 1700000000100
   \<and> players (snd (click click_store 1700000000100 1700000000100 (1 / 2) ''1'')) = players click_store
   \<and> clicks (snd (click click_store 1700000000100 1700000000100 (1 / 2) ''1'')) = clicks click_store
   \<and> combo (snd (click click_store 1700000000100 1700000000100 (1 / 2) ''1'')) = combo click_store
   \<and> lb_gold (snd (click click_store 1700000000100 1700000000100 (1 / 2) ''1'')) = lb_gold click_store
   \<and> lb_clicks (snd (click click_store 1700000000100 1700000000100 (1 / 2) ''1'')) = lb_clicks click_store"
proof -
  have h: "map_of (players click_store) ''1'' \<noteq> None"
    "int (zcard (pruned click_store 1700000000100 ''1'')) < config_max_hits click_store"
    "live_cooldown click_store 1700000000100 ''1'' = Some 1700000000500"
    by (simp_all add: click_store_facts click_store_config pruned_def zremrangebyscore_def
          zcard_def live_cooldown_def)
  from cooldown_rejection_keeps_slot [of click_store "''1''" 1700000000100 1700000000100 1700000000500 "1 / 2" 400] h
  show ?thesis by (simp add: zscore_zadd)
qed


subsection \<open>Leaderboard\<close>

lemma str_samples:
  "str 1700000000001 = ''1700000000001''" "str 1700000000002 = ''1700000000002''"
  by (simp_all add: str_def str_nat.simps digit_char_def)

lemma two_logins_eq:
  "two_logins = empty_store
     \<lparr>players := [(''1700000000001'', \<lparr>username = Some ''ann'', gold = 1000\<rparr>),
                  (''1700000000002'', \<lparr>username = Some ''bob'', gold = 1000\<rparr>)],
      lb_gold := [(''1700000000001'', 1000), (''1700000000002'', 1000)],
      lb_clicks := [(''1700000000001'', 0), (''1700000000002'', 0)]\<rparr>"
  by (simp add: two_logins_def player_login_def Let_def str_samples empty_store_def zadd_def)

text \<open>
  C9, as stated, after two logins: ann arrives first, bob second, both with 1000 gold.
  The gold leaderboard lists bob before ann, and the two scores are equal, so the list
  is neither strictly descending nor in arrival order.
\<close>

theorem leaderboard_ties_counterexample:
  "lb_gold two_logins = [(''1700000000001'', 1000), (''1700000000002'', 1000)]
   \<and> get_leaderboard two_logins ''gold'' 10 =
       [\<lparr>lb_rank = 1, lb_player_id = ''1700000000002'', lb_username = Some ''bob'', lb_score = 1000\<rparr>,
        \<lparr>lb_rank = 2, lb_player_id = ''1700000000001'', lb_username = Some ''ann'', lb_score = 1000\<rparr>]
   \<and> \<not> sorted_wrt (\<lambda>a b. lb_score b < lb_score a) (get_leaderboard two_logins ''gold'' 10)"
  by (simp add: two_logins_eq empty_store_def get_leaderboard_def leaderboard_def zrevrange_def
        range_by_rank_def zkey_def hget_username_def enumerate_eq_zip upt_rec)

lemma sorted_wrt_range_by_rank:
  "sorted_wrt P xs \<Longrightarrow> sorted_wrt P (range_by_rank xs a b)"
  by (simp add: range_by_rank_def Let_def sorted_wrt_take sorted_wrt_drop)

lemma zrevrange_sorted:
  "sorted_wrt (\<lambda>a b. zkey b \<le> zkey a) (zrevrange z a b)"
proof -
  have "sorted (map zkey (sort_key zkey z))" by (rule sorted_sort_key)
  then have "sorted_wrt (\<lambda>a b. zkey a \<le> zkey b) (sort_key zkey z)"
    by (simp add: sorted_map)
  then have "sorted_wrt (\<lambda>a b. zkey b \<le> zkey a) (rev (sort_key zkey z))"
    by (simp add: sorted_wrt_rev)
  then show ?thesis
    unfolding zrevrange_def by (rule sorted_wrt_range_by_rank)
qed

lemma map_int_fst_enumerate:
  "map (\<lambda>x. int (fst x)) (List.enumerate n xs) = map int [n..<n + length xs]"
proof -
  have "map (\<lambda>x. int (fst x)) (List.enumerate n xs) = map int (map fst (List.enumerate n xs))"
    by (simp only: map_map comp_def)
  then show ?thesis by (simp only: map_fst_enumerate)
qed

text \<open>
  C9, amended: for every board and every limit, the ranks of the list returned are
  1, 2, 3, ... without a gap, the scores never increase along the list, and entries
  with equal scores are in descending order of player id, which is how
  \<^verbatim>\<open>ZREVRANGE\<close> orders the members of equal score.
\<close>

theorem leaderboard_order:
  "map lb_rank (get_leaderboard s board_type limit) =
     map int [1..<Suc (length (get_leaderboard s board_type limit))]
   \<and> sorted_wrt (\<lambda>a b. lb_score b < lb_score a
                        \<or> (lb_score b = lb_score a \<and> lb_player_id b \<le> lb_player_id a))
        (get_leaderboard s board_type limit)"
proof -
  let ?top = "zrevrange (leaderboard s board_type) 0 (limit - 1)"
  let ?mk = "\<lambda>(rnk, (pid, sc)). \<lparr>lb_rank = int rnk, lb_player_id = pid,
                 lb_username = hget_username s pid, lb_score = sc\<rparr>"
  have out: "get_leaderboard s board_type limit = map ?mk (List.enumerate 1 ?top)"
    by (simp add: get_leaderboard_def)
  have "map lb_rank (map ?mk (List.enumerate 1 ?top)) =
          map (\<lambda>x. int (fst x)) (List.enumerate 1 ?top)"
    by (simp add: comp_def split_def del: upt_Suc)
  then have ranks: "map lb_rank (map ?mk (List.enumerate 1 ?top)) = map int [1..<1 + length ?top]"
    by (simp only: map_int_fst_enumerate)
  have "sorted_wrt (\<lambda>a b. zkey b \<le> zkey a) ?top" by (rule zrevrange_sorted)
  then have "sorted_wrt (\<lambda>a b. zkey b \<le> zkey a) (map snd (List.enumerate 1 ?top))"
    by (simp only: map_snd_enumerate)
  then have "sorted_wrt (\<lambda>x y. zkey (snd y) \<le> zkey (snd x)) (List.enumerate 1 ?top)"
    by (simp only: sorted_wrt_map)
  then have "sorted_wrt (\<lambda>a b. lb_score b < lb_score a
                        \<or> (lb_score b = lb_score a \<and> lb_player_id b \<le> lb_player_id a))
        (map ?mk (List.enumerate 1 ?top))"
    unfolding sorted_wrt_map
    by (rule sorted_wrt_mono_rel [rotated]) (auto simp: zkey_def less_eq_prod_def split_def)
  with ranks out show ?thesis by simp
qed


subsection \<open>The sliding window\<close>











lemma click_limited:
  assumes "map_of (players s) pid \<noteq> None"
    and "config_max_hits s \<le> int (zcard (pruned s now_ms pid))"
  shows "click s now_ms srv_ms rnd pid =
           (Click_rate_limited (retry_after s now_ms pid) (config_window_ms s) (config_max_hits s),
            s\<lparr>rate := (rate s)(pid := pruned s now_ms pid)\<rparr>)"
  using assms
  by (auto simp: click_def Let_def pruned_def retry_after_def split: list.splits)








lemmas click_eval =
  click_def Let_def config_cooldown_ms_def config_window_ms_def config_max_hits_def
  zremrangebyscore_def zcard_def zadd_def zrange_def range_by_rank_def zkey_def
  live_cooldown_def live_combo_def click_reward_def click_script_def hincrby_gold_def
  str_def str_nat.simps digit_char_def shop_store_def empty_store_def








subsection \<open>Leaderboards and balances\<close>

lemma synced_rate [simp]: "synced (s\<lparr>rate := r\<rparr>) = synced s"
  by (simp add: synced_def click_count_def)

text \<open>
  Within the exact range the script of \<^verbatim>\<open>shop_buy\<close> either writes nothing or
  completes the purchase.
\<close>

lemma neg_cost_unread:
  assumes "safe_int p" and "safe_int q"
    and "p * q = 0" and "\<not> (p = 0 \<and> q < 0)" and "\<not> (q = 0 \<and> p < 0)"
    and "\<not> reads_neg_zero srv"
  shows "int_arg srv (lua_neg (lua_mul (to_lua p) (to_lua q))) = None"
proof -
  from assms(3,4,5) have "(p = 0 \<or> q = 0) \<and> (p < 0) = (q < 0)" by auto
  then have "lua_mul (to_lua p) (to_lua q) = Fin 0"
    using assms(1,2) by (auto simp: to_lua_safe lua_mul_Fin)
  with assms(6) show ?thesis by (simp add: int_arg_def)
qed

lemma buy_script_exact:
  assumes it: "items s iid = Some it" and pl: "map_of (players s) pid = Some p"
    and st: "stock s iid = Some st"
    and safe: "safe_int st" "safe_int quantity" "safe_int (price it)" "safe_int (gold p)"
      "safe_int (price it * quantity)" "safe_int (gold p - price it * quantity)"
  shows "buy_script srv s pid iid quantity = Script_rejected OutOfStock
       \<or> buy_script srv s pid iid quantity = Script_rejected InsufficientFunds
       \<or> buy_script srv s pid iid quantity = Script_error s
       \<or> buy_script srv s pid iid quantity =
           Script_done (gold p - price it * quantity)
             (s\<lparr>players := AList.update pid (p\<lparr>gold := gold p - price it * quantity\<rparr>) (players s),
                stock := (stock s)(iid \<mapsto> st - quantity),
                lb_gold := zadd (lb_gold s) pid (gold p - price it * quantity)\<rparr>)"
proof (cases "st < quantity")
  case True
  then show ?thesis using it st safe by (simp add: buy_script_def to_lua_safe)
next
  case enough: False
  have g: "hget_gold s pid = Some (gold p)" using pl by (simp add: hget_gold_def)
  have a: "\<not> lua_less (to_lua st) (to_lua quantity)"
    using enough safe by (simp add: to_lua_safe)
  have b: "lua_less (to_lua (gold p)) (lua_mul (to_lua (price it)) (to_lua quantity)) =
             (gold p < price it * quantity)"
    using safe by (intro less_cost_exact) simp_all
  show ?thesis
  proof (cases "gold p < price it * quantity")
    case True
    then show ?thesis using it st g a b by (simp add: buy_script_def)
  next
    case rich: False
    show ?thesis
    proof (cases "price it * quantity \<noteq> 0 \<or> (price it = 0 \<and> quantity < 0)
         \<or> (quantity = 0 \<and> price it < 0) \<or> reads_neg_zero srv")
      case True
      from buy_script_done [OF it pl st _ _ safe True] enough rich show ?thesis by simp
    next
      case False
      then have "int_arg srv (lua_neg (lua_mul (to_lua (price it)) (to_lua quantity))) = None"
        using safe by (intro neg_cost_unread) simp_all
      then show ?thesis using it st g a b rich by (simp add: buy_script_def)
    qed
  qed
qed

lemma synced_shop_buy:
  assumes "synced s" and "exact_numbers s pid iid q"
  shows "synced (snd (shop_buy srv s uid_at time_at pid iid q))"
proof (cases "items s iid")
  case None
  then show ?thesis using assms(1) by (simp add: shop_buy_def)
next
  case it: (Some it)
  show ?thesis
  proof (cases "stock s iid")
    case None
    then show ?thesis using assms(1) it by (simp add: shop_buy_def buy_script_def)
  next
    case st: (Some st)
    show ?thesis
    proof (cases "map_of (players s) pid")
      case None
      then show ?thesis
        using assms(1) it st
        by (simp add: shop_buy_def buy_script_def hget_gold_def Let_def)
    next
      case pl: (Some p)
      then have g: "hget_gold s pid = Some (gold p)" by (simp add: hget_gold_def)
      have safe: "safe_int st" "safe_int q" "safe_int (price it)" "safe_int (gold p)"
        "safe_int (price it * q)" "safe_int (gold p - price it * q)"
        using assms(2) it st g by (simp_all add: exact_numbers_def)
      have after: "synced (s\<lparr>players := AList.update pid (p\<lparr>gold := gold p - price it * q\<rparr>) (players s),
                stock := (stock s)(iid \<mapsto> st - q),
                lb_gold := zadd (lb_gold s) pid (gold p - price it * q)\<rparr>)"
        using assms(1) pl
        by (auto simp: synced_def update_conv' zscore_zadd click_count_def)
      from buy_script_exact [OF it pl st safe, of srv] show ?thesis
        using assms(1) it after
        by (auto simp: shop_buy_def foldl_rpush_item synced_def click_count_def)
    qed
  qed
qed


text \<open>A click stopped by the cooldown, and what exact balances say about a new balance.\<close>

lemma click_cooling:
  assumes "map_of (players s) pid \<noteq> None"
    and "int (zcard (pruned s now_ms pid)) < config_max_hits s"
    and "live_cooldown s srv_ms pid = Some expiry"
  shows "click s now_ms srv_ms rnd pid =
      (Click_cooling_down (if 0 < expiry - srv_ms then expiry - srv_ms else config_cooldown_ms s),
       s\<lparr>rate := (rate s)(pid := zadd (pruned s now_ms pid) (str now_ms) now_ms)\<rparr>)"
proof -
  have "live_cooldown (s\<lparr>rate := (rate s)(pid := zadd (pruned s now_ms pid) (str now_ms) now_ms)\<rparr>)
      srv_ms pid = Some expiry"
    using assms(3) by (simp add: live_cooldown_def)
  then show ?thesis
    using assms by (simp add: click_def Let_def pruned_def live_cooldown_def)
qed

lemma exact_gold_update:
  assumes "exact_gold (s\<lparr>players := AList.update pid p (players s)\<rparr>)"
  shows "safe_int (gold p)"
proof -
  have "map_of (AList.update pid p (players s)) pid = Some p" by (simp add: update_conv')
  then have "(pid, p) \<in> set (AList.update pid p (players s))" by (rule map_of_SomeD)
  with assms show ?thesis by (auto simp: exact_gold_def list_all_iff)
qed

lemma synced_click:
  assumes sy: "synced s" and cnt: "safe_int (click_count s pid + 1)"
    and ex: "exact_gold (snd (click s now_ms srv_ms rnd pid))"
  shows "synced (snd (click s now_ms srv_ms rnd pid))"
proof (cases "map_of (players s) pid = None")
  case True
  then show ?thesis using sy by (simp add: click_def)
next
  case pl: False
  show ?thesis
  proof (cases "config_max_hits s \<le> int (zcard (pruned s now_ms pid))")
    case True
    from click_limited [OF pl True, of srv_ms rnd] sy show ?thesis by simp
  next
    case open_gate: False
    then have cntl: "int (zcard (pruned s now_ms pid)) < config_max_hits s" by simp
    show ?thesis
    proof (cases "live_cooldown s srv_ms pid")
      case (Some expiry)
      from click_cooling [OF pl cntl Some, of rnd] sy show ?thesis by simp
    next
      case None
      let ?g = "balance s pid + fst (click_reward (prior_combo s srv_ms pid) rnd)"
      note acc = click_accepted [OF pl cntl None, of rnd]
      have "exact_gold (s\<lparr>players := AList.update pid
          ((the (map_of (players s) pid))\<lparr>gold := ?g\<rparr>) (players s)\<rparr>)"
        using ex unfolding acc by (simp add: exact_gold_def)
      from exact_gold_update [OF this] have sg: "safe_int ?g" by simp
      show ?thesis
        unfolding acc using sy pl sg cnt
        by (auto simp: synced_def update_conv' zscore_zadd click_count_def to_lua_safe)
    qed
  qed
qed

lemma synced_login:
  "synced s \<Longrightarrow> clicks s (str now_ms) = None \<Longrightarrow> synced (snd (player_login s now_ms uname))"
  by (auto simp: synced_def player_login_def Let_def update_conv' zscore_zadd click_count_def
        split: option.splits if_splits)

lemma synced_bid: "synced s \<Longrightarrow> synced (snd (auction_bid s aid pid amount))"
  by (auto simp: synced_def auction_bid_def Let_def hincrby_gold_def hget_gold_def
        hget_username_def update_conv' zscore_zadd click_count_def
        split: option.splits if_splits)

lemma synced_buy: "synced s \<Longrightarrow> synced (snd (auction_buy s uid now_iso auction_id buyer))"
  by (auto simp: synced_def auction_buy_def Let_def hincrby_gold_def hget_gold_def
        update_conv' zscore_zadd click_count_def
        split: option.splits if_splits)

lemma synced_handle:
  "synced s \<Longrightarrow> new_id s r \<Longrightarrow> exact_request s r \<Longrightarrow> exact_gold (handle srv s r) \<Longrightarrow>
   synced (handle srv s r)"
  by (cases r) (simp_all add: synced_login synced_click synced_shop_buy synced_bid synced_buy)

lemma synced_run: "synced s \<Longrightarrow> steady srv s rs \<Longrightarrow> synced (foldl (handle srv) s rs)"
  by (induction rs arbitrary: s) (simp_all add: synced_handle)

lemma synced_empty: "synced empty_store"
  by (simp add: synced_def empty_store_def)

lemma synced_click_store: "synced click_store"
  by (simp add: synced_def click_store_def shop_store_def empty_store_def zscore_def click_count_def)

lemma brim_store_facts:
  "map_of (players brim_store) ''1'' = Some \<lparr>username = Some ''ann'', gold = 9007199254740983\<rparr>"
  "players brim_store = [(''1'', \<lparr>username = Some ''ann'', gold = 9007199254740983\<rparr>)]"
  "lb_gold brim_store = [(''1'', 9007199254740983)]"
  "rate brim_store ''1'' = []" "cooldown brim_store ''1'' = None" "combo brim_store ''1'' = None"
  "clicks brim_store ''1'' = None"
  "cfg_cooldown_ms brim_store = None" "cfg_window_ms brim_store = None"
  "cfg_max_hits brim_store = None"
  by (simp_all add: brim_store_def shop_store_def empty_store_def)

text \<open>
  C8, as stated, fails in four ways.
  \<^item> Two logins in the same millisecond with a click between them: the second login
    takes the identifier of the first, writes the clicks score 0, and leaves the click
    counter at 1.
  \<^item> A buyout at price 0 under an identifier that no login created: \<^verbatim>\<open>HINCRBY\<close> makes
    a player hash with 0 gold and a gold score, and no clicks score at all.
  \<^item> A purchase of one unit at 100 by a player holding \<open>2 ^ 53 + 101\<close>: the gold left
    is \<open>2 ^ 53 + 1\<close>, the score written is the double \<open>2 ^ 53\<close>.
  \<^item> A click worth 10 by a player holding \<open>2 ^ 53 - 9\<close>: the new gold is
    \<open>2 ^ 53 + 1\<close>; the score written and the gold reported are the double \<open>2 ^ 53\<close>.
\<close>

theorem leaderboards_follow_balances_counterexample:
  "zscore (lb_clicks (foldl (handle printf_server) empty_store
       [Login 1700000000001 ''ann'', Click 1700000000001 1700000000001 (1 / 2) ''1700000000001'',
        Login 1700000000001 ''bob''])) ''1700000000001'' = Some 0
   \<and> click_count (foldl (handle printf_server) empty_store
       [Login 1700000000001 ''ann'', Click 1700000000001 1700000000001 (1 / 2) ''1700000000001'',
        Login 1700000000001 ''bob'']) ''1700000000001'' = 1
   \<and> hget_username (foldl (handle printf_server) empty_store
       [Login 1700000000001 ''ann'', Click 1700000000001 1700000000001 (1 / 2) ''1700000000001'',
        Login 1700000000001 ''bob'']) ''1700000000001'' = Some ''bob''
   \<and> synced free_store
   \<and> fst (auction_buy free_store (uid_sample 0) (time_sample 0) ''1700000000000'' ''9'') =
        Buyout_ok 0 1000
   \<and> hget_gold (snd (auction_buy free_store (uid_sample 0) (time_sample 0) ''1700000000000'' ''9''))
        ''9'' = Some 0
   \<and> zscore (lb_clicks (snd (auction_buy free_store (uid_sample 0) (time_sample 0)
        ''1700000000000'' ''9''))) ''9'' = None
   \<and> synced rich_store
   \<and> fst (shop_buy printf_server rich_store uid_sample time_sample ''1'' ''sword_bronze'' 1) =
        Buy_ok 9007199254740992
   \<and> hget_gold (snd (shop_buy printf_server rich_store uid_sample time_sample ''1''
        ''sword_bronze'' 1)) ''1'' = Some 9007199254740993
   \<and> zscore (lb_gold (snd (shop_buy printf_server rich_store uid_sample time_sample ''1''
        ''sword_bronze'' 1))) ''1'' = Some 9007199254740992
   \<and> synced brim_store
   \<and> fst (click brim_store 1700000000000 1700000000000 (1 / 2) ''1'') =
        Click_ok \<lparr>cr_reward = 10, cr_gold = 9007199254740992, cr_combo = 1, cr_critical = False,
                  cr_total_clicks = 1, cr_cooldown_ms = 500, cr_rate_limit_window_ms = 1000,
                  cr_rate_limit_max_hits = 3\<rparr>
   \<and> hget_gold (snd (click brim_store 1700000000000 1700000000000 (1 / 2) ''1'')) ''1'' =
        Some 9007199254740993
   \<and> zscore (lb_gold (snd (click brim_store 1700000000000 1700000000000 (1 / 2) ''1''))) ''1'' =
        Some 9007199254740992"
proof -
  have a: "foldl (handle printf_server) empty_store
       [Login 1700000000001 ''ann'', Click 1700000000001 1700000000001 (1 / 2) ''1700000000001'',
        Login 1700000000001 ''bob''] =
     empty_store\<lparr>players := [(''1700000000001'', \<lparr>username = Some ''bob'', gold = 1000\<rparr>)],
       clicks := [''1700000000001'' \<mapsto> 1],
       combo := [''1700000000001'' \<mapsto> (1, 1700000010001)],
       cooldown := [''1700000000001'' \<mapsto> 1700000000501],
       rate := (\<lambda>_. [])(''1700000000001'' := [(''1700000000001'', 1700000000001)]),
       lb_gold := [(''1700000000001'', 1000)],
       lb_clicks := [(''1700000000001'', 0)]\<rparr>"
    by (simp add: player_login_def click_eval to_lua_safe)
  have a1: "zscore (lb_clicks (foldl (handle printf_server) empty_store
       [Login 1700000000001 ''ann'', Click 1700000000001 1700000000001 (1 / 2) ''1700000000001'',
        Login 1700000000001 ''bob''])) ''1700000000001'' = Some 0"
    and a2: "click_count (foldl (handle printf_server) empty_store
       [Login 1700000000001 ''ann'', Click 1700000000001 1700000000001 (1 / 2) ''1700000000001'',
        Login 1700000000001 ''bob'']) ''1700000000001'' = 1"
    and a3: "hget_username (foldl (handle printf_server) empty_store
       [Login 1700000000001 ''ann'', Click 1700000000001 1700000000001 (1 / 2) ''1700000000001'',
        Login 1700000000001 ''bob'']) ''1700000000001'' = Some ''bob''"
    unfolding a by (simp_all add: zscore_def click_count_def hget_username_def)
  have b1: "synced free_store"
    by (simp add: synced_def free_store_def auction_store_def empty_store_def zscore_def click_count_def)
  have b2: "fst (auction_buy free_store (uid_sample 0) (time_sample 0) ''1700000000000'' ''9'') =
        Buyout_ok 0 1000"
    and b3: "hget_gold (snd (auction_buy free_store (uid_sample 0) (time_sample 0)
        ''1700000000000'' ''9'')) ''9'' = Some 0"
    and b4: "zscore (lb_clicks (snd (auction_buy free_store (uid_sample 0) (time_sample 0)
        ''1700000000000'' ''9''))) ''9'' = None"
    by (simp_all add: auction_buy_def auction_key_def free_store_def auction_store_def empty_store_def
          sample_auction_def hget_gold_def hincrby_gold_def Let_def zscore_def zadd_def)
  have c1: "synced rich_store"
    by (simp add: synced_def rich_store_def shop_store_def empty_store_def zscore_def click_count_def)
  have c: "shop_buy printf_server rich_store uid_sample time_sample ''1'' ''sword_bronze'' 1 =
      (Buy_ok 9007199254740992,
       rpush_item ''1'' ''sword_bronze'' ''bronze sword'' uid_sample time_sample
         (rich_store\<lparr>players := [(''1'', \<lparr>username = Some ''ann'', gold = 9007199254740993\<rparr>)],
            stock := (stock rich_store)(''sword_bronze'' \<mapsto> 4),
            lb_gold := [(''1'', 9007199254740992)]\<rparr>) 0)"
    by (simp add: shop_buy_def buy_script_def hget_gold_def hincrby_gold_def
          rich_store_facts lua_eval zadd_def)
  have c2: "fst (shop_buy printf_server rich_store uid_sample time_sample ''1'' ''sword_bronze'' 1) =
        Buy_ok 9007199254740992"
    and c3: "hget_gold (snd (shop_buy printf_server rich_store uid_sample time_sample ''1''
        ''sword_bronze'' 1)) ''1'' = Some 9007199254740993"
    and c4: "zscore (lb_gold (snd (shop_buy printf_server rich_store uid_sample time_sample ''1''
        ''sword_bronze'' 1))) ''1'' = Some 9007199254740992"
    unfolding c by (simp_all add: rpush_item_def hget_gold_def zscore_def)
  have d1: "synced brim_store"
    by (simp add: synced_def brim_store_def shop_store_def empty_store_def zscore_def click_count_def)
  have d2: "fst (click brim_store 1700000000000 1700000000000 (1 / 2) ''1'') =
        Click_ok \<lparr>cr_reward = 10, cr_gold = 9007199254740992, cr_combo = 1, cr_critical = False,
                  cr_total_clicks = 1, cr_cooldown_ms = 500, cr_rate_limit_window_ms = 1000,
                  cr_rate_limit_max_hits = 3\<rparr>"
    and d3: "hget_gold (snd (click brim_store 1700000000000 1700000000000 (1 / 2) ''1'')) ''1'' =
        Some 9007199254740993"
    and d4: "zscore (lb_gold (snd (click brim_store 1700000000000 1700000000000 (1 / 2) ''1'')))
        ''1'' = Some 9007199254740992"
    by (simp_all add: click_def Let_def config_cooldown_ms_def config_window_ms_def
          config_max_hits_def zremrangebyscore_def zcard_def zadd_def live_cooldown_def
          live_combo_def click_reward_def click_script_def hincrby_gold_def brim_store_facts
          lua_eval hget_gold_def zscore_def)
  from a1 a2 a3 b1 b2 b3 b4 c1 c2 c3 c4 d1 d2 d3 d4 show ?thesis by blast
qed


text \<open>
  C8, amended: the leaderboards follow the balances as long as every login creates a
  new identifier and the numbers stay below \<open>2 ^ 53\<close> in absolute value. They agree
  in the empty database; after any sequence of logins, clicks, purchases, bids and
  buyouts, on any server, from a store where they agree, in which every login picks
  an identifier without a click counter, every purchase is within the exact range,
  every click counter and every balance stays within it, each player's
  \<^verbatim>\<open>leaderboard:gold\<close> score equals their gold and each logged-in player's
  \<^verbatim>\<open>leaderboard:clicks\<close> score equals their click counter; every single such request
  keeps it so. In particular an accepted click whose new gold and new counter are
  within the exact range raises the gold by the reward, which is positive, and the
  gold score and the gold reported equal the new gold; it raises the click counter
  by one, and the clicks score and the count reported equal the new counter.
\<close>

theorem leaderboards_follow_balances:
  "synced empty_store
   \<and> (synced s0 \<and> steady srv s0 rs \<longrightarrow> synced (foldl (handle srv) s0 rs))
   \<and> (synced s \<and> new_id s r \<and> exact_request s r \<and> exact_gold (handle srv s r) \<longrightarrow>
        synced (handle srv s r))
   \<and> (combo_nonneg s \<and> fst (click s now_ms srv_ms rnd pid) = Click_ok res
      \<and> safe_int (balance s pid + cr_reward res) \<and> safe_int (click_count s pid + 1) \<longrightarrow>
        balance (snd (click s now_ms srv_ms rnd pid)) pid = balance s pid + cr_reward res
      \<and> 0 < cr_reward res
      \<and> cr_gold res = balance (snd (click s now_ms srv_ms rnd pid)) pid
      \<and> zscore (lb_gold (snd (click s now_ms srv_ms rnd pid))) pid =
           Some (balance (snd (click s now_ms srv_ms rnd pid)) pid)
      \<and> click_count (snd (click s now_ms srv_ms rnd pid)) pid = click_count s pid + 1
      \<and> cr_total_clicks res = click_count (snd (click s now_ms srv_ms rnd pid)) pid
      \<and> zscore (lb_clicks (snd (click s now_ms srv_ms rnd pid))) pid =
           Some (click_count (snd (click s now_ms srv_ms rnd pid)) pid))"
proof -
  have run: "synced s0 \<and> steady srv s0 rs \<longrightarrow> synced (foldl (handle srv) s0 rs)"
    using synced_run by blast
  have step: "synced s \<and> new_id s r \<and> exact_request s r \<and> exact_gold (handle srv s r) \<longrightarrow>
        synced (handle srv s r)"
    using synced_handle by blast
  have clk: "combo_nonneg s \<and> fst (click s now_ms srv_ms rnd pid) = Click_ok res
      \<and> safe_int (balance s pid + cr_reward res) \<and> safe_int (click_count s pid + 1) \<longrightarrow>
        balance (snd (click s now_ms srv_ms rnd pid)) pid = balance s pid + cr_reward res
      \<and> 0 < cr_reward res
      \<and> cr_gold res = balance (snd (click s now_ms srv_ms rnd pid)) pid
      \<and> zscore (lb_gold (snd (click s now_ms srv_ms rnd pid))) pid =
           Some (balance (snd (click s now_ms srv_ms rnd pid)) pid)
      \<and> click_count (snd (click s now_ms srv_ms rnd pid)) pid = click_count s pid + 1
      \<and> cr_total_clicks res = click_count (snd (click s now_ms srv_ms rnd pid)) pid
      \<and> zscore (lb_clicks (snd (click s now_ms srv_ms rnd pid))) pid =
           Some (click_count (snd (click s now_ms srv_ms rnd pid)) pid)"
  proof (intro impI)
    assume a: "combo_nonneg s \<and> fst (click s now_ms srv_ms rnd pid) = Click_ok res
      \<and> safe_int (balance s pid + cr_reward res) \<and> safe_int (click_count s pid + 1)"
    then have ok: "fst (click s now_ms srv_ms rnd pid) = Click_ok res" and nn: "combo_nonneg s"
      and sc: "safe_int (click_count s pid + 1)"
      by simp_all
    note gates = click_ok_gates [OF ok]
    have pos: "0 < fst (click_reward (prior_combo s srv_ms pid) rnd)"
      using prior_combo_nonneg [OF nn, of srv_ms pid]
      by (auto simp: click_reward_def Let_def min_def)
    from gates have acc: "click s now_ms srv_ms rnd pid =
    (Click_ok \<lparr>cr_reward = fst (click_reward (prior_combo s srv_ms pid) rnd),
               cr_gold = lua_val (to_lua (balance s pid + fst (click_reward (prior_combo s srv_ms pid) rnd))),
               cr_combo = prior_combo s srv_ms pid + 1,
               cr_critical = snd (click_reward (prior_combo s srv_ms pid) rnd),
               cr_total_clicks = lua_val (to_lua (click_count s pid + 1)),
               cr_cooldown_ms = config_cooldown_ms s,
               cr_rate_limit_window_ms = config_window_ms s,
               cr_rate_limit_max_hits = config_max_hits s\<rparr>,
     s\<lparr>rate := (rate s)(pid := zadd (pruned s now_ms pid) (str now_ms) now_ms),
       cooldown := (if 0 < config_cooldown_ms s
                    then (cooldown s)(pid \<mapsto> srv_ms + config_cooldown_ms s) else cooldown s),
       players := AList.update pid
          ((the (map_of (players s) pid))
             \<lparr>gold := balance s pid + fst (click_reward (prior_combo s srv_ms pid) rnd)\<rparr>) (players s),
       clicks := (clicks s)(pid \<mapsto> click_count s pid + 1),
       lb_gold := zadd (lb_gold s) pid
          (lua_val (to_lua (balance s pid + fst (click_reward (prior_combo s srv_ms pid) rnd)))),
       lb_clicks := zadd (lb_clicks s) pid (lua_val (to_lua (click_count s pid + 1))),
       combo := (combo s)(pid \<mapsto> (prior_combo s srv_ms pid + 1, srv_ms + 10000))\<rparr>)"
      by (intro click_accepted) simp_all
    from ok have rw: "cr_reward res = fst (click_reward (prior_combo s srv_ms pid) rnd)"
      unfolding acc by auto
    with a have sg: "safe_int (balance s pid + fst (click_reward (prior_combo s srv_ms pid) rnd))"
      by simp
    have res: "res = \<lparr>cr_reward = fst (click_reward (prior_combo s srv_ms pid) rnd),
               cr_gold = balance s pid + fst (click_reward (prior_combo s srv_ms pid) rnd),
               cr_combo = prior_combo s srv_ms pid + 1,
               cr_critical = snd (click_reward (prior_combo s srv_ms pid) rnd),
               cr_total_clicks = click_count s pid + 1,
               cr_cooldown_ms = config_cooldown_ms s,
               cr_rate_limit_window_ms = config_window_ms s,
               cr_rate_limit_max_hits = config_max_hits s\<rparr>"
      using ok sg sc unfolding acc by (simp add: to_lua_safe)
    show "balance (snd (click s now_ms srv_ms rnd pid)) pid = balance s pid + cr_reward res
      \<and> 0 < cr_reward res
      \<and> cr_gold res = balance (snd (click s now_ms srv_ms rnd pid)) pid
      \<and> zscore (lb_gold (snd (click s now_ms srv_ms rnd pid))) pid =
           Some (balance (snd (click s now_ms srv_ms rnd pid)) pid)
      \<and> click_count (snd (click s now_ms srv_ms rnd pid)) pid = click_count s pid + 1
      \<and> cr_total_clicks res = click_count (snd (click s now_ms srv_ms rnd pid)) pid
      \<and> zscore (lb_clicks (snd (click s now_ms srv_ms rnd pid))) pid =
           Some (click_count (snd (click s now_ms srv_ms rnd pid)) pid)"
      unfolding acc res using gates pos sg sc
      by (simp add: balance_def update_conv' zscore_zadd click_count_def to_lua_safe)
  qed
  from synced_empty run step clk show ?thesis by blast
qed


text \<open>
  A run of one request of each kind from the auction store, and a click of ann's.
\<close>

lemma auction_store_steady:
  "steady printf_server auction_store
        [Login 1700000000001 ''dan'', Click 1700000000600 1700000000600 (1 / 2) ''1'',
         Shop_buy uid_sample time_sample ''2'' ''sword_bronze'' 2,
         Auction_bid ''auction:1700000000000'' ''2'' 60,
         Auction_buy (uid_sample 0) (time_sample 0) ''1700000000000'' ''3'']"
  by (simp add: player_login_def click_eval to_lua_safe shop_eval lua_eval exact_numbers_def
        exact_gold_def click_count_def auction_bid_def auction_buy_def auction_key_def
        hget_username_def auction_store_def sample_auction_def)

theorem leaderboards_follow_balances_witness:
  "synced auction_store
   \<and> steady printf_server auction_store
        [Login 1700000000001 ''dan'', Click 1700000000600 1700000000600 (1 / 2) ''1'',
         Shop_buy uid_sample time_sample ''2'' ''sword_bronze'' 2,
         Auction_bid ''auction:1700000000000'' ''2'' 60,
         Auction_buy (uid_sample 0) (time_sample 0) ''1700000000000'' ''3'']
   \<and> synced (foldl (handle printf_server) auction_store
        [Login 1700000000001 ''dan'', Click 1700000000600 1700000000600 (1 / 2) ''1'',
         Shop_buy uid_sample time_sample ''2'' ''sword_bronze'' 2,
         Auction_bid ''auction:1700000000000'' ''2'' 60,
         Auction_buy (uid_sample 0) (time_sample 0) ''1700000000000'' ''3''])
   \<and> synced click_store
   \<and> new_id click_store (Click 1700000000600 1700000000600 (1 / 2) ''1'')
   \<and> exact_request click_store (Click 1700000000600 1700000000600 (1 / 2) ''1'')
   \<and> exact_gold (handle printf_server click_store (Click 1700000000600 1700000000600 (1 / 2) ''1''))
   \<and> synced (handle printf_server click_store (Click 1700000000600 1700000000600 (1 / 2) ''1''))
   \<and> combo_nonneg click_store
   \<and> fst (click click_store 1700000000600 1700000000600 (1 / 2) ''1'') =
        Click_ok \<lparr>cr_reward = 12, cr_gold = 1022, cr_combo = 2, cr_critical = False,
                  cr_total_clicks = 2, cr_cooldown_ms = 500, cr_rate_limit_window_ms = 1000,
                  cr_rate_limit_max_hits = 3\<rparr>
   \<and> safe_int (balance click_store ''1'' + 12) \<and> safe_int (click_count click_store ''1'' + 1)
   \<and> balance click_store ''1'' = 1010
   \<and> balance (snd (click click_store 1700000000600 1700000000600 (1 / 2) ''1'')) ''1'' = 1022
   \<and> zscore (lb_gold (snd (click click_store 1700000000600 1700000000600 (1 / 2) ''1''))) ''1'' =
        Some 1022
   \<and> click_count (snd (click click_store 1700000000600 1700000000600 (1 / 2) ''1'')) ''1'' = 2
   \<and> zscore (lb_clicks (snd (click click_store 1700000000600 1700000000600 (1 / 2) ''1''))) ''1'' =
        Some 2"
proof -
  have st: "synced auction_store"
    by (simp add: synced_def auction_store_def empty_store_def zscore_def click_count_def)
  have a: "fst (click click_store 1700000000600 1700000000600 (1 / 2) ''1'') =
        Click_ok \<lparr>cr_reward = 12, cr_gold = 1022, cr_combo = 2, cr_critical = False,
                  cr_total_clicks = 2, cr_cooldown_ms = 500, cr_rate_limit_window_ms = 1000,
                  cr_rate_limit_max_hits = 3\<rparr>"
    by (simp add: click_store_accepts click_reward_def to_lua_safe)
  have b: "balance click_store ''1'' = 1010" "click_count click_store ''1'' = 1"
    by (simp_all add: balance_def click_count_def click_store_facts)
  have n: "new_id click_store (Click 1700000000600 1700000000600 (1 / 2) ''1'')"
    "exact_request click_store (Click 1700000000600 1700000000600 (1 / 2) ''1'')"
    by (simp_all add: b)
  have acc: "map_of (players click_store) ''1'' \<noteq> None"
    "int (zcard (pruned click_store 1700000000600 ''1'')) < config_max_hits click_store"
    "live_cooldown click_store 1700000000600 ''1'' = None"
    "prior_combo click_store 1700000000600 ''1'' = 1"
    by (simp_all add: click_store_facts click_store_config pruned_def zremrangebyscore_def
          zcard_def live_cooldown_def prior_combo_def live_combo_def)
  have g: "exact_gold (handle printf_server click_store
      (Click 1700000000600 1700000000600 (1 / 2) ''1''))"
    using click_accepted [OF acc(1,2,3), of "1 / 2"] acc(4) b
    by (simp add: exact_gold_def click_reward_def click_store_def shop_store_def empty_store_def)
  from leaderboards_follow_balances [of auction_store printf_server
        "[Login 1700000000001 ''dan'', Click 1700000000600 1700000000600 (1 / 2) ''1'',
         Shop_buy uid_sample time_sample ''2'' ''sword_bronze'' 2,
         Auction_bid ''auction:1700000000000'' ''2'' 60,
         Auction_buy (uid_sample 0) (time_sample 0) ''1700000000000'' ''3'']"
        click_store "Click 1700000000600 1700000000600 (1 / 2) ''1''" 1700000000600 1700000000600
        "1 / 2" "''1''"
        "\<lparr>cr_reward = 12, cr_gold = 1022, cr_combo = 2, cr_critical = False,
                  cr_total_clicks = 2, cr_cooldown_ms = 500, cr_rate_limit_window_ms = 1000,
                  cr_rate_limit_max_hits = 3\<rparr>"]
    st auction_store_steady a b n g synced_click_store click_store_combo_nonneg
  show ?thesis by simp
qed

end
